theory Spec2Isabelle
  imports Main "HOL-Library.AList"
begin

section \<open>The file system seen by the script\<close>

text \<open>
  The script works on three relative paths of its working directory: \<open>temp-wp\<close>,
  \<open>temp-wp/wp-content/themes\<close> and \<open>themes\<close>. The working directory is modelled as a
  list of named entries; an entry is a regular file or a directory of entries. A name is
  looked up with \<open>map_of\<close> (the first entry of that name). Symbolic links and access
  rights that would make a read or a write fail are outside the model, and there is no
  clock: \<open>times\<close> is the time stamp a node carries, which only a copy transfers.
  \<open>owner\<close> stands for the owning user and group together.
\<close>

record meta =
  owner :: string
  mode :: nat
  times :: nat

datatype node = File string meta | Dir meta "(string \<times> node) list"

type_synonym entries = "(string \<times> node) list"

type_synonym path = "string list"

text \<open>
  The exceptions the four steps can raise, and the one \<open>print\<close> raises on a standard
  output that cannot encode a line; all are subclasses of \<open>Exception\<close>.
\<close>

datatype exn =
  CalledProcessError | FileNotFoundError | FileExistsError | NotADirectoryError
  | IsADirectoryError | UnicodeEncodeError

text \<open>
  Resolving a relative path: a missing component is \<open>ENOENT\<close>, a regular file in the
  place of a directory is \<open>ENOTDIR\<close>.
\<close>

fun stat :: "entries \<Rightarrow> path \<Rightarrow> exn + node" where
  "stat es [] = Inl FileNotFoundError"
| "stat es [x] = (case map_of es x of None \<Rightarrow> Inl FileNotFoundError | Some n \<Rightarrow> Inr n)"
| "stat es (x # y # p) =
     (case map_of es x of
        None \<Rightarrow> Inl FileNotFoundError
      | Some (File c m) \<Rightarrow> Inl NotADirectoryError
      | Some (Dir m sub) \<Rightarrow> stat sub (y # p))"

text \<open>\<open>Path.exists()\<close> and \<open>Path.is_dir()\<close>: false on every lookup error.\<close>

definition path_exists :: "entries \<Rightarrow> path \<Rightarrow> bool" where
  "path_exists es p = (case stat es p of Inl e \<Rightarrow> False | Inr n \<Rightarrow> True)"

definition is_dir :: "entries \<Rightarrow> path \<Rightarrow> bool" where
  "is_dir es p = (case stat es p of Inr (Dir m sub) \<Rightarrow> True | _ \<Rightarrow> False)"

text \<open>\<open>Path.iterdir()\<close>: the names of the children, or the error of \<open>os.listdir\<close>.\<close>

definition iterdir :: "entries \<Rightarrow> path \<Rightarrow> exn + string list" where
  "iterdir es p =
     (case stat es p of
        Inl e \<Rightarrow> Inl e
      | Inr (File c m) \<Rightarrow> Inl NotADirectoryError
      | Inr (Dir m sub) \<Rightarrow> Inr (map fst sub))"

text \<open>Putting a node at a path whose parent directory exists.\<close>

fun store :: "entries \<Rightarrow> path \<Rightarrow> node \<Rightarrow> exn + entries" where
  "store es [] n = Inl FileNotFoundError"
| "store es [x] n = Inr (AList.update x n es)"
| "store es (x # y # p) n =
     (case map_of es x of
        None \<Rightarrow> Inl FileNotFoundError
      | Some (File c m) \<Rightarrow> Inl NotADirectoryError
      | Some (Dir m sub) \<Rightarrow>
          (case store sub (y # p) n of
             Inl e \<Rightarrow> Inl e
           | Inr sub' \<Rightarrow> Inr (AList.update x (Dir m sub') es)))"

text \<open>
  \<open>Path.mkdir(parents=True, exist_ok=True)\<close>, also \<open>os.makedirs(exist_ok=True)\<close>:
  every missing directory along the path is created with the attributes \<open>new\<close>; an
  existing directory is left as it is; a regular file on the way is an error
  (\<open>FileExistsError\<close> when it is the last component).
\<close>

fun mkdir_p :: "meta \<Rightarrow> entries \<Rightarrow> path \<Rightarrow> exn + entries" where
  "mkdir_p new es [] = Inr es"
| "mkdir_p new es (x # p) =
     (case map_of es x of
        None \<Rightarrow>
          (case mkdir_p new [] p of
             Inl e \<Rightarrow> Inl e
           | Inr sub \<Rightarrow> Inr (AList.update x (Dir new sub) es))
      | Some (File c m) \<Rightarrow> Inl (if p = [] then FileExistsError else NotADirectoryError)
      | Some (Dir m sub) \<Rightarrow>
          (case mkdir_p new sub p of
             Inl e \<Rightarrow> Inl e
           | Inr sub' \<Rightarrow> Inr (AList.update x (Dir m sub') es)))"

text \<open>Removing the entry at a path.\<close>

fun remove :: "entries \<Rightarrow> path \<Rightarrow> entries" where
  "remove es [] = es"
| "remove es [x] = AList.delete x es"
| "remove es (x # y # p) =
     (case map_of es x of
        Some (Dir m sub) \<Rightarrow> AList.update x (Dir m (remove sub (y # p))) es
      | _ \<Rightarrow> es)"

text \<open>\<open>shutil.rmtree(path)\<close>: the path must be an existing directory.\<close>

definition rmtree :: "entries \<Rightarrow> path \<Rightarrow> exn + entries" where
  "rmtree es p =
     (case stat es p of
        Inl e \<Rightarrow> Inl e
      | Inr (File c m) \<Rightarrow> Inl NotADirectoryError
      | Inr (Dir m sub) \<Rightarrow> Inr (remove es p))"

text \<open>Applying a change of attributes to every node of a tree (\<open>chown -R\<close>, \<open>chmod -R\<close>).\<close>

primrec map_meta :: "(meta \<Rightarrow> meta) \<Rightarrow> node \<Rightarrow> node" where
  "map_meta f (File c m) = File c (f m)"
| "map_meta f (Dir m sub) = Dir (f m) (map (map_prod id (map_meta f)) sub)"

section \<open>The environment of a run\<close>

text \<open>
  What the script cannot decide itself: whether the \<open>git\<close> and \<open>/bin/zsh\<close> binaries
  can be executed, what a clone of the remote repository checks out (\<open>None\<close> when the
  fetch fails, for instance without network), whether \<open>sudo chown\<close> succeeds, the
  invoking user, and the attributes of a directory the process creates.
\<close>

record env =
  git_installed :: bool
  remote :: "entries option"
  zsh_installed :: bool
  sudo_ok :: bool
  user :: string
  dir_mode :: nat
  now :: nat

definition fresh :: "env \<Rightarrow> meta" where
  "fresh env = \<lparr>owner = user env, mode = dir_mode env, times = now env\<rparr>"

text \<open>
  A copy made by \<open>shutil.copy2\<close> or \<open>shutil.copytree\<close> carries the content, the
  permission bits and the time stamps of its source (\<open>copystat\<close>); it belongs to the
  user who runs the script.
\<close>

definition copied :: "env \<Rightarrow> node \<Rightarrow> node" where
  "copied env n = map_meta (\<lambda>m. m\<lparr>owner := user env\<rparr>) n"

text \<open>
  \<open>shutil.copytree(src, dst)\<close>: \<open>src\<close> is listed first, then the directories down to
  \<open>dst\<close> are made, \<open>dst\<close> itself must not exist.
\<close>

definition copytree :: "env \<Rightarrow> path \<Rightarrow> path \<Rightarrow> entries \<Rightarrow> exn + entries" where
  "copytree env src dst es =
     (case stat es src of
        Inl e \<Rightarrow> Inl e
      | Inr (File c m) \<Rightarrow> Inl NotADirectoryError
      | Inr (Dir m sub) \<Rightarrow>
          if path_exists es dst then Inl FileExistsError
          else (case mkdir_p (fresh env) es (butlast dst) of
                  Inl e \<Rightarrow> Inl e
                | Inr es' \<Rightarrow> store es' dst (copied env (Dir m sub))))"

text \<open>
  \<open>shutil.copy2(src, dst)\<close>: \<open>src\<close> is a regular file; a directory as \<open>dst\<close> receives
  the file under the name of \<open>src\<close>; an existing file is overwritten and keeps its owner.
\<close>

definition copy2 :: "env \<Rightarrow> path \<Rightarrow> path \<Rightarrow> entries \<Rightarrow> exn + entries" where
  "copy2 env src dst es =
     (case stat es src of
        Inl e \<Rightarrow> Inl e
      | Inr (Dir m sub) \<Rightarrow> Inl IsADirectoryError
      | Inr (File c m) \<Rightarrow>
          (let dst' = (if is_dir es dst then dst @ [last src] else dst) in
           case stat es dst' of
             Inr (Dir m' sub') \<Rightarrow> Inl IsADirectoryError
           | Inr (File c' m') \<Rightarrow> store es dst' (File c (m\<lparr>owner := owner m'\<rparr>))
           | Inl e \<Rightarrow> store es dst' (copied env (File c m))))"

text \<open>
  \<open>git clone --depth=1 <url> <target>\<close>: refuses a target that exists and is not an
  empty directory; when the fetch fails it removes what it created; on success the
  target directory holds the checked-out tree. The result is the exit status and the
  file system.
\<close>

definition git_clone :: "env \<Rightarrow> string \<Rightarrow> entries \<Rightarrow> nat \<times> entries" where
  "git_clone env target es =
     (case map_of es target of
        Some (File c m) \<Rightarrow> (128, es)
      | Some (Dir m sub) \<Rightarrow>
          (if sub \<noteq> [] then (128, es)
           else case remote env of
                  None \<Rightarrow> (128, es)
                | Some tree \<Rightarrow> (0, AList.update target (Dir m tree) es))
      | None \<Rightarrow>
          (case remote env of
             None \<Rightarrow> (128, es)
           | Some tree \<Rightarrow> (0, AList.update target (Dir (fresh env) tree) es)))"

text \<open>
  The shell command line \<open>sudo chown -R $USER:$USER themes && chmod -R 775 themes\<close>:
  \<open>chmod\<close> runs only after a successful \<open>chown\<close>, and the exit status is that of the
  last command run.
\<close>

definition sudo_chown_R :: "env \<Rightarrow> string \<Rightarrow> entries \<Rightarrow> nat \<times> entries" where
  "sudo_chown_R env name es =
     (if sudo_ok env \<and> map_of es name \<noteq> None
      then (0, AList.map_entry name (map_meta (\<lambda>m. m\<lparr>owner := user env\<rparr>)) es)
      else (1, es))"

definition chmod_R :: "nat \<Rightarrow> string \<Rightarrow> entries \<Rightarrow> nat \<times> entries" where
  "chmod_R bits name es =
     (if map_of es name \<noteq> None
      then (0, AList.map_entry name (map_meta (\<lambda>m. m\<lparr>mode := bits\<rparr>)) es)
      else (1, es))"

definition command :: "env \<Rightarrow> entries \<Rightarrow> nat \<times> entries" where
  "command env es =
     (case sudo_chown_R env ''themes'' es of
        (rc, es') \<Rightarrow> if rc = 0 then chmod_R (7 * 64 + 7 * 8 + 5) ''themes'' es' else (rc, es'))"

section \<open>The script\<close>

text \<open>The lines the script prints; a failure line carries the exception it formats.\<close>

datatype msg =
  Cloning | Copying | Skipping string | Removing | Fixing | PermsFixed | AllDone
  | CommandFailed exn | MissingTool exn | UnexpectedError exn

text \<open>The fixed text in front of the exception in the three failure lines.\<close>

definition cross_mark :: string where
  "cross_mark = [CHR 0xE2, CHR 0x9D, CHR 0x8C]"

fun failure_prefix :: "msg \<Rightarrow> string option" where
  "failure_prefix (CommandFailed e) = Some (cross_mark @ '' Command failed: '')"
| "failure_prefix (MissingTool e) = Some (cross_mark @ '' Missing required tool (e.g., git): '')"
| "failure_prefix (UnexpectedError e) = Some (cross_mark @ '' Unexpected error: '')"
| "failure_prefix m = None"

record world =
  fs :: entries
  out :: "msg list"

text \<open>
  \<open>print\<close> on a standard output that takes the line. The definitions of the steps and of
  \<open>main\<close> that follow describe the script on such an output; the definitions after them
  add the case of an output that refuses the lines.
\<close>

definition print :: "msg \<Rightarrow> world \<Rightarrow> world" where
  "print m w = w\<lparr>out := out w @ [m]\<rparr>"

text \<open>
  A step either completes (\<open>None\<close>) or raises; in both cases it returns the world as it
  has left it.
\<close>

type_synonym step = "world \<Rightarrow> exn option \<times> world"

definition then_do :: "step \<Rightarrow> step \<Rightarrow> step" where
  "then_do f g w = (case f w of (None, w') \<Rightarrow> g w' | (Some e, w') \<Rightarrow> (Some e, w'))"

text \<open>
  \<open>subprocess.run(..., check=True)\<close>: \<open>FileNotFoundError\<close> when the executable cannot
  be started, \<open>CalledProcessError\<close> when it returns a non-zero exit status.
\<close>

definition subprocess_run :: "bool \<Rightarrow> (entries \<Rightarrow> nat \<times> entries) \<Rightarrow> step" where
  "subprocess_run installed prog w =
     (if \<not> installed then (Some FileNotFoundError, w)
      else case prog (fs w) of
             (rc, es) \<Rightarrow> (if rc \<noteq> 0 then Some CalledProcessError else None, w\<lparr>fs := es\<rparr>))"

definition TEMP_DIR :: path where
  "TEMP_DIR = [''temp-wp'']"

definition THEMES_TARGET :: path where
  "THEMES_TARGET = [''themes'']"

definition clone_wordpress_repo :: "env \<Rightarrow> step" where
  "clone_wordpress_repo env w =
     subprocess_run (git_installed env) (git_clone env ''temp-wp'') (print Cloning w)"

definition source_themes :: path where
  "source_themes = TEMP_DIR @ [''wp-content'', ''themes'']"

text \<open>The body of the \<open>for\<close> loop of \<open>copy_themes\<close>, over the names \<open>iterdir\<close> gave.\<close>

fun copy_items :: "env \<Rightarrow> string list \<Rightarrow> step" where
  "copy_items env [] w = (None, w)"
| "copy_items env (name # rest) w =
     (let item = source_themes @ [name]; dest = THEMES_TARGET @ [name] in
      if path_exists (fs w) dest then copy_items env rest (print (Skipping name) w)
      else case (if is_dir (fs w) item then copytree env item dest (fs w)
                 else copy2 env item dest (fs w)) of
             Inl e \<Rightarrow> (Some e, w)
           | Inr es \<Rightarrow> copy_items env rest (w\<lparr>fs := es\<rparr>))"

definition copy_themes :: "env \<Rightarrow> step" where
  "copy_themes env w =
     (case mkdir_p (fresh env) (fs w) THEMES_TARGET of
        Inl e \<Rightarrow> (Some e, w)
      | Inr es \<Rightarrow>
          (let w1 = print Copying (w\<lparr>fs := es\<rparr>) in
           case iterdir (fs w1) source_themes of
             Inl e \<Rightarrow> (Some e, w1)
           | Inr names \<Rightarrow> copy_items env names w1))"

definition clean_temp :: step where
  "clean_temp w =
     (let w1 = print Removing w in
      case rmtree (fs w1) TEMP_DIR of
        Inl e \<Rightarrow> (Some e, w1)
      | Inr es \<Rightarrow> (None, w1\<lparr>fs := es\<rparr>))"

definition fix_theme_permissions :: "env \<Rightarrow> step" where
  "fix_theme_permissions env w =
     then_do (subprocess_run (zsh_installed env) (command env))
       (\<lambda>w'. (None, print PermsFixed w')) (print Fixing w)"

text \<open>The \<open>try\<close> block of \<open>main\<close>, its three \<open>except\<close> clauses in their order, and \<open>main\<close>.\<close>

definition try_block :: "env \<Rightarrow> step" where
  "try_block env =
     then_do (clone_wordpress_repo env)
       (then_do (copy_themes env)
          (then_do clean_temp
             (then_do (fix_theme_permissions env)
                (\<lambda>w. (None, print AllDone w)))))"

definition report :: "exn \<Rightarrow> msg" where
  "report e =
     (if e = CalledProcessError then CommandFailed e
      else if e = FileNotFoundError then MissingTool e
      else UnexpectedError e)"

definition main :: "env \<Rightarrow> step" where
  "main env w =
     (case try_block env w of
        (None, w') \<Rightarrow> (None, w')
      | (Some e, w') \<Rightarrow> (None, print (report e) w'))"

text \<open>The exit status of the process: zero unless an exception leaves \<open>main\<close>.\<close>

definition exit_status :: "exn option \<times> world \<Rightarrow> nat" where
  "exit_status r = (case fst r of None \<Rightarrow> 0 | Some e \<Rightarrow> 1)"

section \<open>The script on a standard output that may refuse its lines\<close>

text \<open>
  Every line the script prints begins with a character outside ASCII. \<open>ok\<close> says
  whether the standard output accepts the lines of the script. On one that does not,
  because its encoding has no such character, the call of \<open>print\<close> raises
  \<open>UnicodeEncodeError\<close> and writes nothing; otherwise it is \<open>print\<close> above.
\<close>

definition say :: "bool \<Rightarrow> msg \<Rightarrow> step" where
  "say ok l w = (if ok then (None, print l w) else (Some UnicodeEncodeError, w))"

text \<open>
  The four steps, the \<open>try\<close> block and \<open>main\<close> once more, statement by statement,
  with each \<open>print\<close> of the source as a call that can raise. An exception raised by
  the \<open>print\<close> of an \<open>except\<close> clause is not caught by the clauses beside it: it
  leaves \<open>main\<close>.
\<close>

definition clone_wordpress_repo_io :: "bool \<Rightarrow> env \<Rightarrow> step" where
  "clone_wordpress_repo_io ok env =
     then_do (say ok Cloning) (subprocess_run (git_installed env) (git_clone env ''temp-wp''))"

fun copy_items_io :: "bool \<Rightarrow> env \<Rightarrow> string list \<Rightarrow> step" where
  "copy_items_io ok env [] w = (None, w)"
| "copy_items_io ok env (name # rest) w =
     (let item = source_themes @ [name]; dest = THEMES_TARGET @ [name] in
      if path_exists (fs w) dest
      then case say ok (Skipping name) w of
             (Some e, w') \<Rightarrow> (Some e, w')
           | (None, w') \<Rightarrow> copy_items_io ok env rest w'
      else case (if is_dir (fs w) item then copytree env item dest (fs w)
                 else copy2 env item dest (fs w)) of
             Inl e \<Rightarrow> (Some e, w)
           | Inr es \<Rightarrow> copy_items_io ok env rest (w\<lparr>fs := es\<rparr>))"

definition copy_themes_io :: "bool \<Rightarrow> env \<Rightarrow> step" where
  "copy_themes_io ok env w =
     (case mkdir_p (fresh env) (fs w) THEMES_TARGET of
        Inl e \<Rightarrow> (Some e, w)
      | Inr es \<Rightarrow>
          then_do (say ok Copying)
            (\<lambda>w1. case iterdir (fs w1) source_themes of
                    Inl e \<Rightarrow> (Some e, w1)
                  | Inr names \<Rightarrow> copy_items_io ok env names w1)
            (w\<lparr>fs := es\<rparr>))"

definition clean_temp_io :: "bool \<Rightarrow> step" where
  "clean_temp_io ok =
     then_do (say ok Removing)
       (\<lambda>w1. case rmtree (fs w1) TEMP_DIR of
               Inl e \<Rightarrow> (Some e, w1)
             | Inr es \<Rightarrow> (None, w1\<lparr>fs := es\<rparr>))"

definition fix_theme_permissions_io :: "bool \<Rightarrow> env \<Rightarrow> step" where
  "fix_theme_permissions_io ok env =
     then_do (say ok Fixing)
       (then_do (subprocess_run (zsh_installed env) (command env)) (say ok PermsFixed))"

definition try_block_io :: "bool \<Rightarrow> env \<Rightarrow> step" where
  "try_block_io ok env =
     then_do (clone_wordpress_repo_io ok env)
       (then_do (copy_themes_io ok env)
          (then_do (clean_temp_io ok)
             (then_do (fix_theme_permissions_io ok env) (say ok AllDone))))"

definition main_io :: "bool \<Rightarrow> env \<Rightarrow> step" where
  "main_io ok env w =
     (case try_block_io ok env w of
        (None, w') \<Rightarrow> (None, w')
      | (Some e, w') \<Rightarrow> say ok (report e) w')"

section \<open>Auxiliary notions for the statements\<close>

text \<open>
  The entry of name \<open>X\<close> that the loop of \<open>copy_themes\<close> leaves in a destination
  directory with the entries \<open>T\<close>, for a source directory with the entries \<open>S\<close> of
  which the names \<open>names\<close> have been visited: an entry that was there stays, a missing
  one is the copy of the source entry.
\<close>

definition merged :: "env \<Rightarrow> entries \<Rightarrow> entries \<Rightarrow> string list \<Rightarrow> string \<Rightarrow> node option" where
  "merged env T S names X =
     (case map_of T X of
        Some d \<Rightarrow> Some d
      | None \<Rightarrow> if X \<in> set names then map_option (copied env) (map_of S X) else None)"


text \<open>A step that only appends lines to the output, none of them a failure line.\<close>

definition quiet :: "step \<Rightarrow> bool" where
  "quiet f \<longleftrightarrow>
     (\<forall>w. \<exists>ls. out (snd (f w)) = out w @ ls \<and> (\<forall>l\<in>set ls. failure_prefix l = None))"

text \<open>
  The line a step prints when it begins (the copy step prints its line once the
  destination directory is there).
\<close>

fun starts :: "msg \<Rightarrow> bool" where
  "starts Cloning = True"
| "starts Copying = True"
| "starts Removing = True"
| "starts Fixing = True"
| "starts l = False"

text \<open>
  A concrete run: the clone holds a new theme directory \<open>twentytwenty\<close>, a theme
  \<open>twentyseventeen\<close> that the destination already has, and a file \<open>index.php\<close>.
\<close>

definition demo_meta :: meta where
  "demo_meta = \<lparr>owner = ''www'', mode = 420, times = 7\<rparr>"

definition demo_repo :: entries where
  "demo_repo =
     [(''wp-content'', Dir demo_meta
        [(''themes'', Dir demo_meta
           [(''twentytwenty'', Dir demo_meta [(''style.css'', File ''css'' demo_meta)]),
            (''twentyseventeen'', Dir demo_meta []),
            (''index.php'', File ''php'' demo_meta)])])]"

definition demo_env :: env where
  "demo_env = \<lparr>git_installed = True, remote = Some demo_repo, zsh_installed = True,
     sudo_ok = True, user = ''me'', dir_mode = 493, now = 9\<rparr>"

definition demo_world :: world where
  "demo_world =
     \<lparr>fs = [(''themes'', Dir demo_meta [(''twentyseventeen'', File ''mine'' demo_meta)])],
      out = []\<rparr>"

definition demo_cloned :: world where
  "demo_cloned = snd (clone_wordpress_repo demo_env demo_world)"

text \<open>
  Variations of that run: a clone without \<open>wp-content\<close>, an empty working directory, a
  working directory in which \<open>themes\<close> is a regular file, a machine without \<open>git\<close>,
  one without \<open>/bin/zsh\<close>, one on which \<open>sudo chown\<close> fails, and a working directory
  in which an earlier run has left \<open>temp-wp\<close> behind.
\<close>

definition bare_env :: env where
  "bare_env = demo_env\<lparr>remote := Some []\<rparr>"

definition empty_world :: world where
  "empty_world = \<lparr>fs = [], out = []\<rparr>"

definition blocked_world :: world where
  "blocked_world = \<lparr>fs = [(''themes'', File ''notes'' demo_meta)], out = []\<rparr>"

definition no_git_env :: env where
  "no_git_env = demo_env\<lparr>git_installed := False\<rparr>"

definition no_zsh_env :: env where
  "no_zsh_env = demo_env\<lparr>zsh_installed := False\<rparr>"

definition stale_world :: world where
  "stale_world = \<lparr>fs = [(''temp-wp'', Dir demo_meta [(''README'', File ''old'' demo_meta)])],
     out = []\<rparr>"

definition no_sudo_env :: env where
  "no_sudo_env = demo_env\<lparr>sudo_ok := False\<rparr>"

text \<open>A clone in which \<open>wp-content\<close> is a regular file.\<close>

definition flat_env :: env where
  "flat_env = demo_env\<lparr>remote := Some [(''wp-content'', File ''text'' demo_meta)]\<rparr>"

section \<open>Paths and single operations\<close>

lemma stat_top: "map_of es x = map_of es' x \<Longrightarrow> stat es (x # p) = stat es' (x # p)"
  by (cases p) simp_all

lemma stat_snoc:
  "p \<noteq> [] \<Longrightarrow> stat es (p @ [x]) =
     (case stat es p of
        Inl e \<Rightarrow> Inl e
      | Inr (File c m) \<Rightarrow> Inl NotADirectoryError
      | Inr (Dir m sub) \<Rightarrow>
          (case map_of sub x of None \<Rightarrow> Inl FileNotFoundError | Some n \<Rightarrow> Inr n))"
proof (induction es p rule: stat.induct)
  case (1 es)
  then show ?case by simp
next
  case (2 es y)
  then show ?case by (simp split: option.splits node.splits)
next
  case (3 es y z p)
  then show ?case by (simp split: option.splits node.splits)
qed

lemma source_top: "source_themes = ''temp-wp'' # [''wp-content'', ''themes'']"
  by (simp add: source_themes_def TEMP_DIR_def)

lemma stat_source_frame:
  "map_of es' ''temp-wp'' = map_of es ''temp-wp'' \<Longrightarrow>
   stat es' (source_themes @ q) = stat es (source_themes @ q)"
  unfolding source_top append_Cons by (rule stat_top)

lemma dest_path: "THEMES_TARGET @ [X] = [''themes'', X]"
  by (simp add: THEMES_TARGET_def)

lemma dest_entry: "stat es [''themes'', X] =
  (case map_of es ''themes'' of None \<Rightarrow> Inl FileNotFoundError
   | Some (File c m) \<Rightarrow> Inl NotADirectoryError
   | Some (Dir m T) \<Rightarrow> (case map_of T X of None \<Rightarrow> Inl FileNotFoundError | Some n \<Rightarrow> Inr n))"
  by (simp split: option.splits node.splits)

lemma mkdir_themes_dir:
  "map_of es ''themes'' = Some (Dir m T) \<Longrightarrow> mkdir_p new es [''themes''] = Inr es"
  by (simp add: update_triv)

lemma store_dest:
  "map_of es ''themes'' = Some (Dir m T) \<Longrightarrow>
   store es [''themes'', name] n = Inr (AList.update ''themes'' (Dir m (AList.update name n T)) es)"
  by simp

lemma copy_one_file:
  assumes T: "map_of es ''themes'' = Some (Dir m T)"
      and S: "stat es (source_themes @ [name]) = Inr (File c a)"
      and N: "map_of T name = None"
  shows "copy2 env (source_themes @ [name]) [''themes'', name] es
         = Inr (AList.update ''themes'' (Dir m (AList.update name (copied env (File c a)) T)) es)"
proof -
  have d: "stat es [''themes'', name] = Inl FileNotFoundError"
    using T N by (simp only: dest_entry option.case node.case)
  have nd: "\<not> is_dir es [''themes'', name]"
    by (simp only: is_dir_def d sum.case) simp
  show ?thesis
    unfolding copy2_def S sum.case node.case Let_def
    by (simp only: nd if_False d sum.case store_dest [OF T])
qed

lemma copy_one_dir:
  assumes T: "map_of es ''themes'' = Some (Dir m T)"
      and S: "stat es (source_themes @ [name]) = Inr (Dir a sub)"
      and N: "map_of T name = None"
  shows "copytree env (source_themes @ [name]) [''themes'', name] es
         = Inr (AList.update ''themes'' (Dir m (AList.update name (copied env (Dir a sub)) T)) es)"
proof -
  have d: "stat es [''themes'', name] = Inl FileNotFoundError"
    using T N by (simp only: dest_entry option.case node.case)
  have nd: "\<not> path_exists es [''themes'', name]"
    by (simp only: path_exists_def d sum.case) simp
  have b: "butlast [''themes'', name] = [''themes'']" by simp
  show ?thesis
    unfolding copytree_def S sum.case node.case
    by (simp only: nd if_False b mkdir_themes_dir [OF T] sum.case store_dest [OF T])
qed

lemma copy_one:
  assumes T: "map_of es ''themes'' = Some (Dir m T)"
      and S: "stat es (source_themes @ [name]) = Inr n"
      and N: "map_of T name = None"
  shows "(if is_dir es (source_themes @ [name])
          then copytree env (source_themes @ [name]) [''themes'', name] es
          else copy2 env (source_themes @ [name]) [''themes'', name] es)
         = Inr (AList.update ''themes'' (Dir m (AList.update name (copied env n) T)) es)"
proof (cases n)
  case (File c a)
  then have "\<not> is_dir es (source_themes @ [name])"
    using S by (simp add: is_dir_def)
  then show ?thesis
    using copy_one_file [OF T S [unfolded File] N] File by simp
next
  case (Dir a sub)
  then have "is_dir es (source_themes @ [name])"
    using S by (simp add: is_dir_def)
  then show ?thesis
    using copy_one_dir [OF T S [unfolded Dir] N] Dir by simp
qed

lemma fs_print [simp]: "fs (print l w) = fs w"
  by (simp add: print_def)

lemma out_print [simp]: "out (print l w) = out w @ [l]"
  by (simp add: print_def)

lemma dest_inv:
  assumes "stat es (THEMES_TARGET @ [X]) = Inr d"
  obtains m T where "map_of es ''themes'' = Some (Dir m T)" and "map_of T X = Some d"
  using assms by (auto simp: dest_path split: option.splits node.splits)


section \<open>The loop of the copy step\<close>

lemma copy_items_run:
  assumes "map_of (fs w) ''themes'' = Some (Dir m T)"
      and "stat (fs w) source_themes = Inr (Dir ms S)"
      and "set names \<subseteq> fst ` set S"
  shows "\<exists>w' T' ls. copy_items env names w = (None, w')
      \<and> map_of (fs w') ''themes'' = Some (Dir m T')
      \<and> (\<forall>x. x \<noteq> ''themes'' \<longrightarrow> map_of (fs w') x = map_of (fs w) x)
      \<and> (\<forall>X. map_of T' X = merged env T S names X)
      \<and> out w' = out w @ ls
      \<and> set ls \<subseteq> Skipping ` set names
      \<and> (\<forall>X\<in>set names. map_of T X \<noteq> None \<longrightarrow> Skipping X \<in> set ls)"
  using assms
proof (induction names arbitrary: w T)
  case Nil
  then show ?case by (simp add: merged_def split: option.splits)
next
  case (Cons name rest)
  from Cons.prems(3) have "name \<in> fst ` set S" by simp
  then obtain n where n: "map_of S name = Some n"
    by (cases "map_of S name") (auto simp: map_of_eq_None_iff)
  have src: "stat (fs w) (source_themes @ [name]) = Inr n"
  proof -
    have ne: "source_themes \<noteq> []" by (simp add: source_top)
    show ?thesis
      by (simp only: stat_snoc [OF ne] Cons.prems(2) n sum.case node.case option.case)
  qed
  have rest: "set rest \<subseteq> fst ` set S" using Cons.prems(3) by simp
  show ?case
  proof (cases "map_of T name")
    case None
    let ?T1 = "AList.update name (copied env n) T"
    let ?es = "AList.update ''themes'' (Dir m ?T1) (fs w)"
    let ?w1 = "w\<lparr>fs := ?es\<rparr>"
    have ne: "\<not> path_exists (fs w) [''themes'', name]"
      using Cons.prems(1) None by (simp add: path_exists_def)
    have step: "copy_items env (name # rest) w = copy_items env rest ?w1"
      using ne copy_one [OF Cons.prems(1) src None, of env]
      by (simp add: dest_path Let_def)
    have t1: "map_of (fs ?w1) ''themes'' = Some (Dir m ?T1)"
      by (simp add: update_conv')
    have fr: "\<And>x. x \<noteq> ''themes'' \<Longrightarrow> map_of (fs ?w1) x = map_of (fs w) x"
      by (simp add: update_conv')
    have s1: "stat (fs ?w1) source_themes = Inr (Dir ms S)"
      using stat_source_frame [of "fs ?w1" "fs w" "[]"] fr Cons.prems(2) by simp
    from Cons.IH [OF t1 s1 rest] obtain w' T' ls where
      r: "copy_items env rest ?w1 = (None, w')"
      and a: "map_of (fs w') ''themes'' = Some (Dir m T')"
      and b: "\<forall>x. x \<noteq> ''themes'' \<longrightarrow> map_of (fs w') x = map_of (fs ?w1) x"
      and c: "\<forall>X. map_of T' X = merged env ?T1 S rest X"
      and d: "out w' = out ?w1 @ ls"
      and e: "set ls \<subseteq> Skipping ` set rest"
      and f: "\<forall>X\<in>set rest. map_of ?T1 X \<noteq> None \<longrightarrow> Skipping X \<in> set ls"
      by blast
    have c': "\<forall>X. map_of T' X = merged env T S (name # rest) X"
      using c None n by (auto simp: merged_def update_conv' split: option.splits)
    have f': "\<forall>X\<in>set (name # rest). map_of T X \<noteq> None \<longrightarrow> Skipping X \<in> set ls"
      using f None by (auto simp: update_conv')
    have b': "\<forall>x. x \<noteq> ''themes'' \<longrightarrow> map_of (fs w') x = map_of (fs w) x"
      using b fr by simp
    have d': "out w' = out w @ ls" using d by simp
    have e': "set ls \<subseteq> Skipping ` set (name # rest)" using e by auto
    show ?thesis
      unfolding step r using a b' c' d' e' f' by blast
  next
    case (Some d0)
    let ?w1 = "print (Skipping name) w"
    have ex: "path_exists (fs w) [''themes'', name]"
      using Cons.prems(1) Some by (simp add: path_exists_def)
    have step: "copy_items env (name # rest) w = copy_items env rest ?w1"
      using ex by (simp add: dest_path Let_def)
    have t1: "map_of (fs ?w1) ''themes'' = Some (Dir m T)"
      using Cons.prems(1) by simp
    have s1: "stat (fs ?w1) source_themes = Inr (Dir ms S)"
      using Cons.prems(2) by simp
    from Cons.IH [OF t1 s1 rest] obtain w' T' ls where
      r: "copy_items env rest ?w1 = (None, w')"
      and a: "map_of (fs w') ''themes'' = Some (Dir m T')"
      and b: "\<forall>x. x \<noteq> ''themes'' \<longrightarrow> map_of (fs w') x = map_of (fs ?w1) x"
      and c: "\<forall>X. map_of T' X = merged env T S rest X"
      and d: "out w' = out ?w1 @ ls"
      and e: "set ls \<subseteq> Skipping ` set rest"
      and f: "\<forall>X\<in>set rest. map_of T X \<noteq> None \<longrightarrow> Skipping X \<in> set ls"
      by blast
    have c': "\<forall>X. map_of T' X = merged env T S (name # rest) X"
      using c Some by (auto simp: merged_def split: option.splits)
    have d': "out w' = out w @ (Skipping name # ls)" using d by simp
    have e': "set (Skipping name # ls) \<subseteq> Skipping ` set (name # rest)" using e by auto
    have f': "\<forall>X\<in>set (name # rest). map_of T X \<noteq> None \<longrightarrow> Skipping X \<in> set (Skipping name # ls)"
      using f by auto
    have b': "\<forall>x. x \<noteq> ''themes'' \<longrightarrow> map_of (fs w') x = map_of (fs w) x"
      using b by simp
    show ?thesis
      unfolding step r using a b' c' d' e' f' by blast
  qed
qed

section \<open>The four steps\<close>

lemma merged_all:
  "merged env T S (map fst S) X =
     (case map_of T X of Some d \<Rightarrow> Some d | None \<Rightarrow> map_option (copied env) (map_of S X))"
proof (cases "map_of S X")
  case None
  then show ?thesis by (simp add: merged_def split: option.splits)
next
  case (Some a)
  then have "X \<in> fst ` set S"
    using map_of_eq_None_iff [of S X] by simp
  then show ?thesis by (simp add: merged_def split: option.splits)
qed

lemma mkdir_themes_absent:
  "map_of es ''themes'' = None \<Longrightarrow>
   mkdir_p new es THEMES_TARGET = Inr (AList.update ''themes'' (Dir new []) es)"
  by (simp add: THEMES_TARGET_def)

lemma mkdir_themes_present:
  "map_of es ''themes'' = Some (Dir m T) \<Longrightarrow> mkdir_p new es THEMES_TARGET = Inr es"
  by (simp add: THEMES_TARGET_def update_triv)

lemma copy_themes_listed:
  assumes mk: "mkdir_p (fresh env) (fs w) THEMES_TARGET = Inr es"
      and t: "map_of es ''themes'' = Some (Dir m T)"
      and fr: "map_of es ''temp-wp'' = map_of (fs w) ''temp-wp''"
      and s: "stat (fs w) source_themes = Inr (Dir ms S)"
  shows "\<exists>w' T' ls. copy_themes env w = (None, w')
      \<and> map_of (fs w') ''themes'' = Some (Dir m T')
      \<and> (\<forall>x. x \<noteq> ''themes'' \<longrightarrow> map_of (fs w') x = map_of es x)
      \<and> (\<forall>X. map_of T' X = merged env T S (map fst S) X)
      \<and> out w' = out w @ Copying # ls
      \<and> set ls \<subseteq> Skipping ` fst ` set S
      \<and> (\<forall>X\<in>fst ` set S. map_of T X \<noteq> None \<longrightarrow> Skipping X \<in> set ls)"
proof -
  let ?w1 = "print Copying (w\<lparr>fs := es\<rparr>)"
  have s1: "stat (fs ?w1) source_themes = Inr (Dir ms S)"
    using stat_source_frame [of es "fs w" "[]"] fr s by simp
  have it: "iterdir (fs ?w1) source_themes = Inr (map fst S)"
    using s1 by (simp add: iterdir_def)
  have run: "copy_themes env w = copy_items env (map fst S) ?w1"
    using it by (simp add: copy_themes_def mk Let_def)
  have t1: "map_of (fs ?w1) ''themes'' = Some (Dir m T)"
    using t by simp
  have sub: "set (map fst S) \<subseteq> fst ` set S" by simp
  from copy_items_run [OF t1 s1 sub, of env] obtain w' T' ls where
    r: "copy_items env (map fst S) ?w1 = (None, w')"
    and a: "map_of (fs w') ''themes'' = Some (Dir m T')"
    and b: "\<forall>x. x \<noteq> ''themes'' \<longrightarrow> map_of (fs w') x = map_of (fs ?w1) x"
    and c: "\<forall>X. map_of T' X = merged env T S (map fst S) X"
    and d: "out w' = out ?w1 @ ls"
    and e: "set ls \<subseteq> Skipping ` set (map fst S)"
    and f: "\<forall>X\<in>set (map fst S). map_of T X \<noteq> None \<longrightarrow> Skipping X \<in> set ls"
    by blast
  have b': "\<forall>x. x \<noteq> ''themes'' \<longrightarrow> map_of (fs w') x = map_of es x"
    using b by simp
  have d': "out w' = out w @ Copying # ls" using d by simp
  have e': "set ls \<subseteq> Skipping ` fst ` set S" using e by simp
  have f': "\<forall>X\<in>fst ` set S. map_of T X \<noteq> None \<longrightarrow> Skipping X \<in> set ls"
    using f by simp
  show ?thesis
    unfolding run r using a b' c d' e' f' by blast
qed

lemma copy_themes_unlisted:
  assumes mk: "mkdir_p (fresh env) (fs w) THEMES_TARGET = Inr es"
      and fr: "map_of es ''temp-wp'' = map_of (fs w) ''temp-wp''"
      and s: "iterdir (fs w) source_themes = Inl e"
  shows "copy_themes env w = (Some e, print Copying (w\<lparr>fs := es\<rparr>))"
proof -
  have "stat es source_themes = stat (fs w) source_themes"
    using stat_source_frame [of es "fs w" "[]"] fr by simp
  then have "iterdir es source_themes = Inl e"
    using s by (simp add: iterdir_def)
  then show ?thesis
    by (simp add: copy_themes_def mk Let_def)
qed

lemma git_clone_failure: "git_clone env t es = (rc, es') \<Longrightarrow> rc \<noteq> 0 \<Longrightarrow> es' = es"
  by (auto simp: git_clone_def split: option.splits node.splits if_splits)

lemma clone_raises:
  assumes "fst (clone_wordpress_repo env w) = Some e"
  shows "snd (clone_wordpress_repo env w) = print Cloning w
       \<and> (e = FileNotFoundError \<longleftrightarrow> \<not> git_installed env)
       \<and> (e = CalledProcessError \<longleftrightarrow> git_installed env)"
proof (cases "git_installed env")
  case False
  with assms show ?thesis
    by (simp add: clone_wordpress_repo_def subprocess_run_def)
next
  case True
  obtain rc es where g: "git_clone env ''temp-wp'' (fs (print Cloning w)) = (rc, es)"
    by (cases "git_clone env ''temp-wp'' (fs (print Cloning w))")
  with assms True have rc: "rc \<noteq> 0" and e: "e = CalledProcessError"
    by (auto simp: clone_wordpress_repo_def subprocess_run_def split: if_splits)
  from git_clone_failure [OF g rc] have "es = fs (print Cloning w)" .
  with g True e show ?thesis
    by (simp add: clone_wordpress_repo_def subprocess_run_def rc)
qed

lemma clean_temp_done:
  assumes "clean_temp w = (None, w')"
  shows "fs w' = AList.delete ''temp-wp'' (fs w) \<and> out w' = out w @ [Removing]"
  using assms
  by (auto simp: clean_temp_def rmtree_def TEMP_DIR_def Let_def
           split: sum.splits node.splits option.splits)

lemma command_frame:
  "command env es = (rc, es') \<Longrightarrow> x \<noteq> ''themes'' \<Longrightarrow> map_of es' x = map_of es x"
  by (auto simp: command_def sudo_chown_R_def chmod_R_def map_of_map_entry split: if_splits)

lemma command_failure: "command env es = (rc, es') \<Longrightarrow> rc \<noteq> 0 \<Longrightarrow> es' = es"
  by (auto simp: command_def sudo_chown_R_def chmod_R_def map_of_map_entry split: if_splits)

lemma fix_frame:
  assumes "x \<noteq> ''themes''"
  shows "map_of (fs (snd (fix_theme_permissions env w))) x = map_of (fs w) x"
proof (cases "zsh_installed env")
  case False
  then show ?thesis
    by (simp add: fix_theme_permissions_def then_do_def subprocess_run_def)
next
  case True
  obtain rc es where c: "command env (fs (print Fixing w)) = (rc, es)"
    by (cases "command env (fs (print Fixing w))")
  from command_frame [OF c assms] c True show ?thesis
    by (simp add: fix_theme_permissions_def then_do_def subprocess_run_def)
qed

lemma fix_raises:
  assumes "fst (fix_theme_permissions env w) = Some e"
  shows "snd (fix_theme_permissions env w) = print Fixing w
       \<and> (e = FileNotFoundError \<longleftrightarrow> \<not> zsh_installed env)
       \<and> (e = CalledProcessError \<longleftrightarrow> zsh_installed env)"
proof (cases "zsh_installed env")
  case False
  with assms show ?thesis
    by (simp add: fix_theme_permissions_def then_do_def subprocess_run_def)
next
  case True
  obtain rc es where c: "command env (fs (print Fixing w)) = (rc, es)"
    by (cases "command env (fs (print Fixing w))")
  with assms True have rc: "rc \<noteq> 0" and e: "e = CalledProcessError"
    by (auto simp: fix_theme_permissions_def then_do_def subprocess_run_def split: if_splits)
  from command_failure [OF c rc] have "es = fs (print Fixing w)" .
  with c True e show ?thesis
    by (simp add: fix_theme_permissions_def then_do_def subprocess_run_def rc)
qed



lemma git_clone_frame:
  "git_clone env t es = (rc, es') \<Longrightarrow> x \<noteq> t \<Longrightarrow> map_of es' x = map_of es x"
  by (auto simp: git_clone_def update_conv' split: option.splits node.splits if_splits)

lemma clone_frame:
  assumes "x \<noteq> ''temp-wp''"
  shows "map_of (fs (snd (clone_wordpress_repo env w))) x = map_of (fs w) x"
proof (cases "git_installed env")
  case False
  then show ?thesis
    by (simp add: clone_wordpress_repo_def subprocess_run_def)
next
  case True
  obtain rc es where g: "git_clone env ''temp-wp'' (fs (print Cloning w)) = (rc, es)"
    by (cases "git_clone env ''temp-wp'' (fs (print Cloning w))")
  from git_clone_frame [OF g assms] g True show ?thesis
    by (simp add: clone_wordpress_repo_def subprocess_run_def)
qed

lemma try_block_cases:
  obtains
    (at_clone) e w1 where "clone_wordpress_repo env w = (Some e, w1)"
      and "try_block env w = (Some e, w1)"
  | (at_copy) e w1 w2 where "clone_wordpress_repo env w = (None, w1)"
      and "copy_themes env w1 = (Some e, w2)" and "try_block env w = (Some e, w2)"
  | (at_clean) e w1 w2 w3 where "clone_wordpress_repo env w = (None, w1)"
      and "copy_themes env w1 = (None, w2)" and "clean_temp w2 = (Some e, w3)"
      and "try_block env w = (Some e, w3)"
  | (at_fix) e w1 w2 w3 w4 where "clone_wordpress_repo env w = (None, w1)"
      and "copy_themes env w1 = (None, w2)" and "clean_temp w2 = (None, w3)"
      and "fix_theme_permissions env w3 = (Some e, w4)" and "try_block env w = (Some e, w4)"
  | (finished) w1 w2 w3 w4 where "clone_wordpress_repo env w = (None, w1)"
      and "copy_themes env w1 = (None, w2)" and "clean_temp w2 = (None, w3)"
      and "fix_theme_permissions env w3 = (None, w4)"
      and "try_block env w = (None, print AllDone w4)"
proof -
  obtain r1 w1 where c1: "clone_wordpress_repo env w = (r1, w1)"
    by (cases "clone_wordpress_repo env w")
  obtain r2 w2 where c2: "copy_themes env w1 = (r2, w2)"
    by (cases "copy_themes env w1")
  obtain r3 w3 where c3: "clean_temp w2 = (r3, w3)"
    by (cases "clean_temp w2")
  obtain r4 w4 where c4: "fix_theme_permissions env w3 = (r4, w4)"
    by (cases "fix_theme_permissions env w3")
  show thesis
  proof (cases r1)
    case (Some e)
    with c1 show thesis by (intro at_clone [of e w1]) (simp_all add: try_block_def then_do_def)
  next
    case n1: None
    show thesis
    proof (cases r2)
      case (Some e)
      with c1 c2 n1 show thesis
        by (intro at_copy [of w1 e w2]) (simp_all add: try_block_def then_do_def)
    next
      case n2: None
      show thesis
      proof (cases r3)
        case (Some e)
        with c1 c2 c3 n1 n2 show thesis
          by (intro at_clean [of w1 w2 e w3]) (simp_all add: try_block_def then_do_def)
      next
        case n3: None
        show thesis
        proof (cases r4)
          case (Some e)
          with c1 c2 c3 c4 n1 n2 n3 show thesis
            by (intro at_fix [of w1 w2 w3 e w4]) (simp_all add: try_block_def then_do_def)
        next
          case None
          with c1 c2 c3 c4 n1 n2 n3 show thesis
            by (intro finished [of w1 w2 w3 w4]) (simp_all add: try_block_def then_do_def)
        qed
      qed
    qed
  qed
qed

section \<open>The copy step\<close>

text \<open>
  Claim C1. An entry \<open>X\<close> of the destination directory is the same entry after the copy
  step, whatever the step does otherwise and whether it completes or raises. When the
  source themes directory has an entry of that name too, the step completes and prints the
  skip notice for \<open>X\<close>.
\<close>

theorem copy_themes_skips_existing:
  assumes "stat (fs w) (THEMES_TARGET @ [X]) = Inr d"
  shows "stat (fs (snd (copy_themes env w))) (THEMES_TARGET @ [X]) = Inr d
       \<and> (path_exists (fs w) (source_themes @ [X]) \<longrightarrow>
            fst (copy_themes env w) = None
          \<and> Skipping X \<in> set (out (snd (copy_themes env w))))"
proof -
  from assms obtain m T where t: "map_of (fs w) ''themes'' = Some (Dir m T)"
    and x: "map_of T X = Some d"
    by (rule dest_inv)
  have mk: "mkdir_p (fresh env) (fs w) THEMES_TARGET = Inr (fs w)"
    by (rule mkdir_themes_present [OF t])
  have ne: "source_themes \<noteq> []" by (simp add: source_top)
  show ?thesis
  proof (cases "iterdir (fs w) source_themes")
    case (Inl e)
    then have np: "\<not> path_exists (fs w) (source_themes @ [X])"
      by (auto simp: path_exists_def iterdir_def stat_snoc [OF ne]
               split: sum.splits node.splits)
    from copy_themes_unlisted [OF mk refl Inl]
    have "copy_themes env w = (Some e, print Copying (w\<lparr>fs := fs w\<rparr>))" .
    with assms np show ?thesis by simp
  next
    case (Inr names)
    then obtain ms S where s: "stat (fs w) source_themes = Inr (Dir ms S)"
      by (auto simp: iterdir_def split: sum.splits node.splits)
    from copy_themes_listed [OF mk t refl s] obtain w' T' ls where
      r: "copy_themes env w = (None, w')"
      and a: "map_of (fs w') ''themes'' = Some (Dir m T')"
      and c: "\<forall>X. map_of T' X = merged env T S (map fst S) X"
      and d: "out w' = out w @ Copying # ls"
      and f: "\<forall>X\<in>fst ` set S. map_of T X \<noteq> None \<longrightarrow> Skipping X \<in> set ls"
      by blast
    have kept: "stat (fs w') (THEMES_TARGET @ [X]) = Inr d"
      using a c x by (simp add: dest_path merged_all)
    have logged: "Skipping X \<in> set (out w')" if "path_exists (fs w) (source_themes @ [X])"
    proof -
      from that s have "map_of S X \<noteq> None"
        by (auto simp: path_exists_def stat_snoc [OF ne] split: option.splits)
      then have "X \<in> fst ` set S" by (simp add: map_of_eq_None_iff)
      with f x have "Skipping X \<in> set ls" by blast
      with d show ?thesis by simp
    qed
    show ?thesis using r kept logged by simp
  qed
qed

theorem copy_themes_skips_existing_witness:
  "stat (fs demo_cloned) (THEMES_TARGET @ [''twentyseventeen'']) = Inr (File ''mine'' demo_meta)
 \<and> path_exists (fs demo_cloned) (source_themes @ [''twentyseventeen''])
 \<and> stat (fs (snd (copy_themes demo_env demo_cloned))) (THEMES_TARGET @ [''twentyseventeen''])
     = Inr (File ''mine'' demo_meta)
 \<and> fst (copy_themes demo_env demo_cloned) = None
 \<and> Skipping ''twentyseventeen'' \<in> set (out (snd (copy_themes demo_env demo_cloned)))"
proof -
  have h: "stat (fs demo_cloned) (THEMES_TARGET @ [''twentyseventeen'']) = Inr (File ''mine'' demo_meta)"
    by code_simp
  have p: "path_exists (fs demo_cloned) (source_themes @ [''twentyseventeen''])"
    by code_simp
  show ?thesis
    using copy_themes_skips_existing [OF h, of demo_env] h p by simp
qed



section \<open>The destination directory\<close>

lemma dest_absent: "stat es THEMES_TARGET = Inl FileNotFoundError \<longleftrightarrow> map_of es ''themes'' = None"
  by (simp add: THEMES_TARGET_def split: option.splits)

lemma dest_is_dir: "is_dir es THEMES_TARGET \<longleftrightarrow> (\<exists>m T. map_of es ''themes'' = Some (Dir m T))"
  by (auto simp: THEMES_TARGET_def is_dir_def split: option.splits node.splits)

lemma stat_dest: "stat es THEMES_TARGET = (case map_of es ''themes'' of None \<Rightarrow> Inl FileNotFoundError | Some n \<Rightarrow> Inr n)"
  by (simp add: THEMES_TARGET_def)

lemma copy_themes_dest:
  assumes mk: "mkdir_p (fresh env) (fs w) THEMES_TARGET = Inr es"
      and t: "map_of es ''themes'' = Some (Dir m T)"
      and fr: "map_of es ''temp-wp'' = map_of (fs w) ''temp-wp''"
  shows "is_dir (fs (snd (copy_themes env w))) THEMES_TARGET
       \<and> fst (copy_themes env w)
           = (case iterdir (fs w) source_themes of Inl e \<Rightarrow> Some e | Inr names \<Rightarrow> None)"
proof (cases "iterdir (fs w) source_themes")
  case (Inl e)
  from copy_themes_unlisted [OF mk fr Inl] t Inl show ?thesis
    by (simp add: dest_is_dir)
next
  case (Inr names)
  then obtain ms S where s: "stat (fs w) source_themes = Inr (Dir ms S)"
    by (auto simp: iterdir_def split: sum.splits node.splits)
  from copy_themes_listed [OF mk t fr s] obtain w' T' where
    "copy_themes env w = (None, w')" and "map_of (fs w') ''themes'' = Some (Dir m T')"
    by blast
  with Inr show ?thesis by (simp add: dest_is_dir)
qed

text \<open>
  Claim C9. The copy step begins by making the destination directory: a missing one is
  created (empty, with the attributes of a new directory), an existing one is left as it
  is and is no error. In both cases the destination is a directory when the step ends, and
  the step raises only if the source themes directory cannot be listed, with the error of
  that listing: the destination never makes it fail.
\<close>

theorem copy_themes_makes_destination:
  assumes "stat (fs w) THEMES_TARGET = Inl FileNotFoundError \<or> is_dir (fs w) THEMES_TARGET"
  shows "mkdir_p (fresh env) (fs w) THEMES_TARGET
           = Inr (if is_dir (fs w) THEMES_TARGET then fs w
                  else AList.update ''themes'' (Dir (fresh env) []) (fs w))
       \<and> is_dir (fs (snd (copy_themes env w))) THEMES_TARGET
       \<and> fst (copy_themes env w)
           = (case iterdir (fs w) source_themes of Inl e \<Rightarrow> Some e | Inr names \<Rightarrow> None)"
proof (cases "is_dir (fs w) THEMES_TARGET")
  case True
  then obtain m T where t: "map_of (fs w) ''themes'' = Some (Dir m T)"
    by (auto simp: dest_is_dir)
  note mk = mkdir_themes_present [OF t, of "fresh env"]
  from copy_themes_dest [OF mk t refl] mk True show ?thesis by simp
next
  case False
  with assms have n: "map_of (fs w) ''themes'' = None"
    by (simp add: dest_absent)
  note mk = mkdir_themes_absent [OF n, of "fresh env"]
  have t: "map_of (AList.update ''themes'' (Dir (fresh env) []) (fs w)) ''themes''
             = Some (Dir (fresh env) [])"
    by (simp add: update_conv')
  have fr: "map_of (AList.update ''themes'' (Dir (fresh env) []) (fs w)) ''temp-wp''
             = map_of (fs w) ''temp-wp''"
    by (simp add: update_conv')
  from copy_themes_dest [OF mk t fr] mk False show ?thesis by simp
qed

theorem copy_themes_makes_destination_witness:
  "stat (fs empty_world) THEMES_TARGET = Inl FileNotFoundError
 \<and> mkdir_p (fresh demo_env) (fs empty_world) THEMES_TARGET
      = Inr [(''themes'', Dir \<lparr>owner = ''me'', mode = 493, times = 9\<rparr> [])]
 \<and> is_dir (fs (snd (copy_themes demo_env empty_world))) THEMES_TARGET
 \<and> fst (copy_themes demo_env empty_world) = Some FileNotFoundError
 \<and> is_dir (fs demo_cloned) THEMES_TARGET
 \<and> mkdir_p (fresh demo_env) (fs demo_cloned) THEMES_TARGET = Inr (fs demo_cloned)
 \<and> is_dir (fs (snd (copy_themes demo_env demo_cloned))) THEMES_TARGET
 \<and> fst (copy_themes demo_env demo_cloned) = None"
proof -
  have h: "stat (fs empty_world) THEMES_TARGET = Inl FileNotFoundError"
    by code_simp
  have d: "\<not> is_dir (fs empty_world) THEMES_TARGET"
    by code_simp
  have i: "iterdir (fs empty_world) source_themes = Inl FileNotFoundError"
    by code_simp
  have u: "AList.update ''themes'' (Dir (fresh demo_env) []) (fs empty_world)
     = [(''themes'', Dir \<lparr>owner = ''me'', mode = 493, times = 9\<rparr> [])]"
    by (simp add: empty_world_def fresh_def demo_env_def)
  have a: "mkdir_p (fresh demo_env) (fs empty_world) THEMES_TARGET
      = Inr [(''themes'', Dir \<lparr>owner = ''me'', mode = 493, times = 9\<rparr> [])]
    \<and> is_dir (fs (snd (copy_themes demo_env empty_world))) THEMES_TARGET
    \<and> fst (copy_themes demo_env empty_world) = Some FileNotFoundError"
    using copy_themes_makes_destination [OF disjI1, OF h, of demo_env] d i u by simp
  have h': "is_dir (fs demo_cloned) THEMES_TARGET"
    by code_simp
  have i': "iterdir (fs demo_cloned) source_themes
     = Inr [''twentytwenty'', ''twentyseventeen'', ''index.php'']"
    by code_simp
  have b: "mkdir_p (fresh demo_env) (fs demo_cloned) THEMES_TARGET = Inr (fs demo_cloned)
    \<and> is_dir (fs (snd (copy_themes demo_env demo_cloned))) THEMES_TARGET
    \<and> fst (copy_themes demo_env demo_cloned) = None"
    using copy_themes_makes_destination [OF disjI2, OF h', of demo_env] h' i' by simp
  from h a h' b show ?thesis by blast
qed

section \<open>Complete runs\<close>

lemma main_raised: "try_block env w = (Some e, w') \<Longrightarrow> main env w = (None, print (report e) w')"
  by (simp add: main_def)

lemma main_completed: "try_block env w = (None, w') \<Longrightarrow> main env w = (None, w')"
  by (simp add: main_def)

lemma temp_absent: "stat es TEMP_DIR = Inl FileNotFoundError \<longleftrightarrow> map_of es ''temp-wp'' = None"
  by (simp add: TEMP_DIR_def split: option.splits)

lemma temp_exists: "path_exists es TEMP_DIR \<longleftrightarrow> map_of es ''temp-wp'' \<noteq> None"
  by (simp add: TEMP_DIR_def path_exists_def split: option.splits)

lemma clean_temp_keeps_dest:
  assumes "clean_temp w = (None, w')"
  shows "map_of (fs w') ''temp-wp'' = None \<and> map_of (fs w') ''themes'' = map_of (fs w) ''themes''"
  using clean_temp_done [OF assms] by (simp add: delete_conv')

text \<open>
  Claim C3. When all four steps complete, the temporary clone directory does not exist at
  the end of the run and the last line printed is the final success line.
\<close>

theorem temp_dir_removed_after_success:
  assumes "fst (try_block env w) = None"
  shows "\<not> path_exists (fs (snd (main env w))) TEMP_DIR
       \<and> stat (fs (snd (main env w))) TEMP_DIR = Inl FileNotFoundError
       \<and> last (out (snd (main env w))) = AllDone"
proof (cases rule: try_block_cases [of env w])
  case (finished w1 w2 w3 w4)
  from clean_temp_keeps_dest [OF finished(3)] have "map_of (fs w3) ''temp-wp'' = None" by simp
  moreover have "map_of (fs w4) ''temp-wp'' = map_of (fs w3) ''temp-wp''"
    using fix_frame [of "''temp-wp''" env w3] finished(4) by simp
  ultimately have "map_of (fs w4) ''temp-wp'' = None" by simp
  with main_completed [OF finished(5)] show ?thesis
    by (simp add: temp_exists temp_absent)
qed (use assms in simp_all)

theorem temp_dir_removed_after_success_witness:
  "fst (try_block demo_env demo_world) = None
 \<and> \<not> path_exists (fs (snd (main demo_env demo_world))) TEMP_DIR
 \<and> last (out (snd (main demo_env demo_world))) = AllDone"
proof -
  have h: "fst (try_block demo_env demo_world) = None"
    by code_simp
  show ?thesis
    using temp_dir_removed_after_success [OF h] h by simp
qed



section \<open>Runs that end in the permission fix or in the fetch\<close>

lemma try_block_at_fix:
  assumes "clone_wordpress_repo env w = (None, w1)" and "copy_themes env w1 = (None, w2)"
      and "clean_temp w2 = (None, w3)"
  shows "try_block env w = then_do (fix_theme_permissions env) (\<lambda>w. (None, print AllDone w)) w3"
  using assms by (simp add: try_block_def then_do_def)

lemma fix_raised_run:
  assumes c1: "clone_wordpress_repo env w = (None, w1)" and c2: "copy_themes env w1 = (None, w2)"
      and c3: "clean_temp w2 = (None, w3)" and c4: "fst (fix_theme_permissions env w3) = Some e"
  shows "main env w = (None, print (report e) (print Fixing w3))
       \<and> \<not> path_exists (fs (snd (main env w))) TEMP_DIR
       \<and> stat (fs (snd (main env w))) THEMES_TARGET = stat (fs w2) THEMES_TARGET"
proof -
  from fix_raises [OF c4] c4 have "fix_theme_permissions env w3 = (Some e, print Fixing w3)"
    by (cases "fix_theme_permissions env w3") simp
  then have "try_block env w = (Some e, print Fixing w3)"
    by (simp add: try_block_at_fix [OF c1 c2 c3] then_do_def)
  from main_raised [OF this] clean_temp_keeps_dest [OF c3] show ?thesis
    by (simp add: temp_exists stat_dest)
qed

text \<open>
  Claim C6, as stated, fails: in the run below \<open>/bin/zsh\<close> is missing, the first three
  steps complete, and the failure line is the missing-tool line, not the command-failure
  line. \<open>subprocess.run\<close> raises \<open>FileNotFoundError\<close> for an executable it cannot start,
  and \<open>main\<close> maps that exception to the missing-tool message.
\<close>

theorem shell_missing_counterexample:
  "\<not> zsh_installed no_zsh_env
 \<and> fst (then_do (clone_wordpress_repo no_zsh_env)
          (then_do (copy_themes no_zsh_env) clean_temp) demo_world) = None
 \<and> last (out (snd (main no_zsh_env demo_world))) = MissingTool FileNotFoundError
 \<and> last (out (snd (main no_zsh_env demo_world))) \<noteq> CommandFailed CalledProcessError"
  by code_simp

text \<open>
  Claim C6, amended. In every run that reaches the permission fix while \<open>/bin/zsh\<close> is
  missing, the temporary directory has been removed, the destination is exactly what the
  copy step left (contents, owners and permission bits), and the failure is reported with
  the missing-tool message.
\<close>

theorem shell_missing_is_reported:
  assumes "\<not> zsh_installed env"
      and "clone_wordpress_repo env w = (None, w1)" and "copy_themes env w1 = (None, w2)"
      and "clean_temp w2 = (None, w3)"
  shows "main env w = (None, print (MissingTool FileNotFoundError) (print Fixing w3))
       \<and> \<not> path_exists (fs (snd (main env w))) TEMP_DIR
       \<and> stat (fs (snd (main env w))) THEMES_TARGET = stat (fs w2) THEMES_TARGET"
proof -
  from assms(1) have f: "fst (fix_theme_permissions env w3) = Some FileNotFoundError"
    by (simp add: fix_theme_permissions_def then_do_def subprocess_run_def)
  have r: "report FileNotFoundError = MissingTool FileNotFoundError"
    by (simp add: report_def)
  show ?thesis
    using fix_raised_run [OF assms(2-4) f] unfolding r .
qed

theorem shell_missing_is_reported_witness:
  "\<not> zsh_installed no_zsh_env
 \<and> fst (clone_wordpress_repo no_zsh_env demo_world) = None
 \<and> fst (copy_themes no_zsh_env (snd (clone_wordpress_repo no_zsh_env demo_world))) = None
 \<and> fst (clean_temp (snd (copy_themes no_zsh_env
                              (snd (clone_wordpress_repo no_zsh_env demo_world))))) = None
 \<and> last (out (snd (main no_zsh_env demo_world))) = MissingTool FileNotFoundError
 \<and> \<not> path_exists (fs (snd (main no_zsh_env demo_world))) TEMP_DIR
 \<and> stat (fs (snd (main no_zsh_env demo_world))) (THEMES_TARGET @ [''twentytwenty''])
     = Inr (Dir (demo_meta\<lparr>owner := ''me''\<rparr>)
              [(''style.css'', File ''css'' (demo_meta\<lparr>owner := ''me''\<rparr>))])"
proof -
  define w1 where "w1 = snd (clone_wordpress_repo no_zsh_env demo_world)"
  define w2 where "w2 = snd (copy_themes no_zsh_env w1)"
  define w3 where "w3 = snd (clean_temp w2)"
  have z: "\<not> zsh_installed no_zsh_env"
    by (simp add: no_zsh_env_def)
  have f1: "fst (clone_wordpress_repo no_zsh_env demo_world) = None"
    by code_simp
  have f2: "fst (copy_themes no_zsh_env (snd (clone_wordpress_repo no_zsh_env demo_world))) = None"
    by code_simp
  have f3: "fst (clean_temp (snd (copy_themes no_zsh_env
                              (snd (clone_wordpress_repo no_zsh_env demo_world))))) = None"
    by code_simp
  have c1: "clone_wordpress_repo no_zsh_env demo_world = (None, w1)"
    using f1 by (simp add: w1_def prod_eq_iff)
  have c2: "copy_themes no_zsh_env w1 = (None, w2)"
    using f2 by (simp add: w1_def w2_def prod_eq_iff)
  have c3: "clean_temp w2 = (None, w3)"
    using f3 by (simp add: w1_def w2_def w3_def prod_eq_iff)
  have t: "stat (fs (snd (main no_zsh_env demo_world))) (THEMES_TARGET @ [''twentytwenty''])
     = Inr (Dir (demo_meta\<lparr>owner := ''me''\<rparr>)
              [(''style.css'', File ''css'' (demo_meta\<lparr>owner := ''me''\<rparr>))])"
    by code_simp
  from shell_missing_is_reported [OF z c1 c2 c3]
  have m: "main no_zsh_env demo_world
             = (None, print (MissingTool FileNotFoundError) (print Fixing w3))"
    and p: "\<not> path_exists (fs (snd (main no_zsh_env demo_world))) TEMP_DIR"
    by blast+
  have l: "last (out (snd (main no_zsh_env demo_world))) = MissingTool FileNotFoundError"
    unfolding m by simp
  show ?thesis
    using z f1 f2 f3 l p t by blast
qed

text \<open>
  Claim C8, as stated, fails in its first part: in the run below the fetch step raises and
  a temporary directory left by an earlier run is still there afterwards.
\<close>

theorem fetch_failure_counterexample:
  "fst (clone_wordpress_repo no_git_env stale_world) = Some FileNotFoundError
 \<and> path_exists (fs (snd (main no_git_env stale_world))) TEMP_DIR"
  by code_simp

text \<open>
  Claim C8, amended. A run whose fetch step raises leaves the file system as it found it,
  so that the temporary directory does not exist afterwards if it did not exist before;
  and in a run whose permission fix raises, the temporary directory has been removed and
  the destination is what the copy step left.
\<close>

theorem temp_dir_after_failure:
  "(\<forall>e. fst (clone_wordpress_repo env w) = Some e \<longrightarrow>
        fs (snd (main env w)) = fs w
      \<and> (\<not> path_exists (fs w) TEMP_DIR \<longrightarrow> \<not> path_exists (fs (snd (main env w))) TEMP_DIR))
 \<and> (\<forall>e w1 w2 w3.
        clone_wordpress_repo env w = (None, w1) \<and> copy_themes env w1 = (None, w2)
      \<and> clean_temp w2 = (None, w3) \<and> fst (fix_theme_permissions env w3) = Some e \<longrightarrow>
        \<not> path_exists (fs (snd (main env w))) TEMP_DIR
      \<and> stat (fs (snd (main env w))) THEMES_TARGET = stat (fs w2) THEMES_TARGET)"
proof (intro conjI allI impI)
  fix e
  assume a: "fst (clone_wordpress_repo env w) = Some e"
  from clone_raises [OF a] a
  have "clone_wordpress_repo env w = (Some e, print Cloning w)"
    by (cases "clone_wordpress_repo env w") simp
  then have "try_block env w = (Some e, print Cloning w)"
    by (simp add: try_block_def then_do_def)
  from main_raised [OF this] show r: "fs (snd (main env w)) = fs w" by simp
  assume "\<not> path_exists (fs w) TEMP_DIR"
  with r show "\<not> path_exists (fs (snd (main env w))) TEMP_DIR" by simp
next
  fix e w1 w2 w3
  assume a: "clone_wordpress_repo env w = (None, w1) \<and> copy_themes env w1 = (None, w2)
      \<and> clean_temp w2 = (None, w3) \<and> fst (fix_theme_permissions env w3) = Some e"
  then have r: "\<not> path_exists (fs (snd (main env w))) TEMP_DIR
       \<and> stat (fs (snd (main env w))) THEMES_TARGET = stat (fs w2) THEMES_TARGET"
    using fix_raised_run [of env w w1 w2 w3 e] by blast
  from r show "\<not> path_exists (fs (snd (main env w))) TEMP_DIR" by blast
  from r show "stat (fs (snd (main env w))) THEMES_TARGET = stat (fs w2) THEMES_TARGET" by blast
qed

theorem temp_dir_after_failure_witness:
  "fst (clone_wordpress_repo no_git_env demo_world) = Some FileNotFoundError
 \<and> \<not> path_exists (fs demo_world) TEMP_DIR
 \<and> \<not> path_exists (fs (snd (main no_git_env demo_world))) TEMP_DIR
 \<and> fst (try_block no_sudo_env demo_world) = Some CalledProcessError
 \<and> \<not> path_exists (fs (snd (main no_sudo_env demo_world))) TEMP_DIR
 \<and> stat (fs (snd (main no_sudo_env demo_world))) THEMES_TARGET
     = stat (fs (snd (copy_themes no_sudo_env (snd (clone_wordpress_repo no_sudo_env demo_world)))))
         THEMES_TARGET"
proof -
  define w1 where "w1 = snd (clone_wordpress_repo no_sudo_env demo_world)"
  define w2 where "w2 = snd (copy_themes no_sudo_env w1)"
  define w3 where "w3 = snd (clean_temp w2)"
  have g: "fst (clone_wordpress_repo no_git_env demo_world) = Some FileNotFoundError"
    by code_simp
  have n: "\<not> path_exists (fs demo_world) TEMP_DIR"
    by code_simp
  have t: "fst (try_block no_sudo_env demo_world) = Some CalledProcessError"
    by code_simp
  have f1: "fst (clone_wordpress_repo no_sudo_env demo_world) = None"
    by code_simp
  have f2: "fst (copy_themes no_sudo_env (snd (clone_wordpress_repo no_sudo_env demo_world))) = None"
    by code_simp
  have f3: "fst (clean_temp (snd (copy_themes no_sudo_env
                              (snd (clone_wordpress_repo no_sudo_env demo_world))))) = None"
    by code_simp
  have f4: "fst (fix_theme_permissions no_sudo_env (snd (clean_temp (snd (copy_themes no_sudo_env
                              (snd (clone_wordpress_repo no_sudo_env demo_world))))))) = Some CalledProcessError"
    by code_simp
  have c: "clone_wordpress_repo no_sudo_env demo_world = (None, w1)
         \<and> copy_themes no_sudo_env w1 = (None, w2) \<and> clean_temp w2 = (None, w3)
         \<and> fst (fix_theme_permissions no_sudo_env w3) = Some CalledProcessError"
    using f1 f2 f3 f4 by (simp add: w1_def w2_def w3_def prod_eq_iff)
  have a: "\<not> path_exists (fs (snd (main no_git_env demo_world))) TEMP_DIR"
    using temp_dir_after_failure [of no_git_env demo_world] g n by blast
  have b: "\<not> path_exists (fs (snd (main no_sudo_env demo_world))) TEMP_DIR
     \<and> stat (fs (snd (main no_sudo_env demo_world))) THEMES_TARGET = stat (fs w2) THEMES_TARGET"
    using temp_dir_after_failure [of no_sudo_env demo_world] c by blast
  show ?thesis
    using g n t a b unfolding w2_def w1_def by blast
qed

section \<open>A clone without the themes subdirectory\<close>

lemma source_missing_iff:
  "stat es source_themes = Inl FileNotFoundError \<longleftrightarrow>
     (case map_of es ''temp-wp'' of
        None \<Rightarrow> True
      | Some (File c m) \<Rightarrow> False
      | Some (Dir m tree) \<Rightarrow>
          (case map_of tree ''wp-content'' of
             None \<Rightarrow> True
           | Some (File c m') \<Rightarrow> False
           | Some (Dir m' sub) \<Rightarrow> map_of sub ''themes'' = None))"
  by (simp add: source_top split: option.splits node.splits)

text \<open>
  Claim C10, as stated, fails in two ways. In the first run below the clone succeeds and
  has no themes subdirectory, but \<open>themes\<close> is a regular file, so that \<open>mkdir\<close> raises
  \<open>FileExistsError\<close> before the source is listed. In the second run the destination is
  missing, the clone succeeds and has no themes subdirectory because \<open>wp-content\<close> is a
  regular file in it, so that listing the source raises \<open>NotADirectoryError\<close>. In both
  runs \<open>main\<close> reports an unexpected error.
\<close>

theorem missing_themes_counterexample:
  "fst (clone_wordpress_repo bare_env blocked_world) = None
 \<and> stat (fs (snd (clone_wordpress_repo bare_env blocked_world))) source_themes
     = Inl FileNotFoundError
 \<and> fst (copy_themes bare_env (snd (clone_wordpress_repo bare_env blocked_world)))
     = Some FileExistsError
 \<and> last (out (snd (main bare_env blocked_world))) = UnexpectedError FileExistsError
 \<and> fst (clone_wordpress_repo flat_env empty_world) = None
 \<and> \<not> path_exists (fs (snd (clone_wordpress_repo flat_env empty_world))) source_themes
 \<and> stat (fs empty_world) THEMES_TARGET = Inl FileNotFoundError
 \<and> fst (copy_themes flat_env (snd (clone_wordpress_repo flat_env empty_world)))
     = Some NotADirectoryError
 \<and> last (out (snd (main flat_env empty_world))) = UnexpectedError NotADirectoryError"
  by code_simp

text \<open>
  Claim C10, amended. When the clone succeeds, the lookup of
  \<open>temp-wp/wp-content/themes\<close> in it fails with \<open>ENOENT\<close>, no such file or directory (by
  \<open>source_missing_iff\<close>: \<open>wp-content\<close> is missing from the clone, or is a directory
  without an entry \<open>themes\<close>; it is not a regular file), and the destination is missing
  or a directory, the copy step raises \<open>FileNotFoundError\<close>, \<open>main\<close> reports it with
  the missing-tool message, and the destination is left as it was, or is the new empty
  directory if it was missing.
\<close>

theorem missing_themes_is_reported:
  assumes c: "clone_wordpress_repo env w = (None, w1)"
      and s: "stat (fs w1) source_themes = Inl FileNotFoundError"
      and d: "stat (fs w) THEMES_TARGET = Inl FileNotFoundError \<or> is_dir (fs w) THEMES_TARGET"
  shows "fst (copy_themes env w1) = Some FileNotFoundError
       \<and> main env w = (None, print (MissingTool FileNotFoundError) (snd (copy_themes env w1)))
       \<and> stat (fs (snd (main env w))) THEMES_TARGET
           = (if is_dir (fs w) THEMES_TARGET then stat (fs w) THEMES_TARGET
              else Inr (Dir (fresh env) []))"
proof -
  have same: "map_of (fs w1) ''themes'' = map_of (fs w) ''themes''"
    using clone_frame [of "''themes''" env w] c by simp
  have it: "iterdir (fs w1) source_themes = Inl FileNotFoundError"
    using s by (simp add: iterdir_def)
  have r: "report FileNotFoundError = MissingTool FileNotFoundError"
    by (simp add: report_def)
  have "\<exists>es. copy_themes env w1 = (Some FileNotFoundError, print Copying (w1\<lparr>fs := es\<rparr>))
      \<and> stat es THEMES_TARGET
           = (if is_dir (fs w) THEMES_TARGET then stat (fs w) THEMES_TARGET
              else Inr (Dir (fresh env) []))"
  proof (cases "is_dir (fs w) THEMES_TARGET")
    case True
    then obtain m T where t: "map_of (fs w1) ''themes'' = Some (Dir m T)"
      using same by (auto simp: dest_is_dir)
    note mk = mkdir_themes_present [OF t, of "fresh env"]
    from copy_themes_unlisted [OF mk refl it]
    have "copy_themes env w1 = (Some FileNotFoundError, print Copying (w1\<lparr>fs := fs w1\<rparr>))" .
    moreover have "stat (fs w1) THEMES_TARGET = stat (fs w) THEMES_TARGET"
      using same by (simp add: stat_dest)
    ultimately show ?thesis using True by (intro exI [of _ "fs w1"]) simp
  next
    case False
    with d have n: "map_of (fs w1) ''themes'' = None"
      using same by (simp add: dest_absent)
    note mk = mkdir_themes_absent [OF n, of "fresh env"]
    have fr: "map_of (AList.update ''themes'' (Dir (fresh env) []) (fs w1)) ''temp-wp''
               = map_of (fs w1) ''temp-wp''"
      by (simp add: update_conv')
    from copy_themes_unlisted [OF mk fr it]
    have "copy_themes env w1 = (Some FileNotFoundError,
            print Copying (w1\<lparr>fs := AList.update ''themes'' (Dir (fresh env) []) (fs w1)\<rparr>))" .
    moreover have "stat (AList.update ''themes'' (Dir (fresh env) []) (fs w1)) THEMES_TARGET
        = Inr (Dir (fresh env) [])"
      by (simp add: stat_dest update_conv')
    ultimately show ?thesis using False
      by (intro exI [of _ "AList.update ''themes'' (Dir (fresh env) []) (fs w1)"]) simp
  qed
  then obtain es where
    cp: "copy_themes env w1 = (Some FileNotFoundError, print Copying (w1\<lparr>fs := es\<rparr>))"
    and st: "stat es THEMES_TARGET
           = (if is_dir (fs w) THEMES_TARGET then stat (fs w) THEMES_TARGET
              else Inr (Dir (fresh env) []))"
    by blast
  have "try_block env w = (Some FileNotFoundError, print Copying (w1\<lparr>fs := es\<rparr>))"
    using c cp by (simp add: try_block_def then_do_def)
  from main_raised [OF this]
  have m: "main env w
     = (None, print (MissingTool FileNotFoundError) (print Copying (w1\<lparr>fs := es\<rparr>)))"
    unfolding r .
  have "fs (snd (main env w)) = es" unfolding m by simp
  with st cp m show ?thesis by simp
qed

theorem missing_themes_is_reported_witness:
  "fst (clone_wordpress_repo bare_env empty_world) = None
 \<and> stat (fs (snd (clone_wordpress_repo bare_env empty_world))) source_themes
     = Inl FileNotFoundError
 \<and> stat (fs empty_world) THEMES_TARGET = Inl FileNotFoundError
 \<and> fst (copy_themes bare_env (snd (clone_wordpress_repo bare_env empty_world)))
     = Some FileNotFoundError
 \<and> last (out (snd (main bare_env empty_world))) = MissingTool FileNotFoundError
 \<and> stat (fs (snd (main bare_env empty_world))) THEMES_TARGET
     = Inr (Dir \<lparr>owner = ''me'', mode = 493, times = 9\<rparr> [])"
proof -
  define w1 where "w1 = snd (clone_wordpress_repo bare_env empty_world)"
  have f1: "fst (clone_wordpress_repo bare_env empty_world) = None"
    by code_simp
  have c: "clone_wordpress_repo bare_env empty_world = (None, w1)"
    using f1 by (simp add: w1_def prod_eq_iff)
  have s: "stat (fs w1) source_themes = Inl FileNotFoundError"
    unfolding w1_def by code_simp
  have d: "stat (fs empty_world) THEMES_TARGET = Inl FileNotFoundError"
    by code_simp
  have nd: "\<not> is_dir (fs empty_world) THEMES_TARGET"
    by code_simp
  have fm: "fresh bare_env = \<lparr>owner = ''me'', mode = 493, times = 9\<rparr>"
    by (simp add: fresh_def bare_env_def demo_env_def)
  from missing_themes_is_reported [OF c s disjI1, OF d]
  have a: "fst (copy_themes bare_env w1) = Some FileNotFoundError"
    and m: "main bare_env empty_world
       = (None, print (MissingTool FileNotFoundError) (snd (copy_themes bare_env w1)))"
    and t: "stat (fs (snd (main bare_env empty_world))) THEMES_TARGET
       = (if is_dir (fs empty_world) THEMES_TARGET then stat (fs empty_world) THEMES_TARGET
          else Inr (Dir (fresh bare_env) []))"
    by blast+
  have l: "last (out (snd (main bare_env empty_world))) = MissingTool FileNotFoundError"
    unfolding m by simp
  have t': "stat (fs (snd (main bare_env empty_world))) THEMES_TARGET
     = Inr (Dir \<lparr>owner = ''me'', mode = 493, times = 9\<rparr> [])"
    using t nd fm by simp
  show ?thesis
    using f1 s d a l t' unfolding w1_def by blast
qed

section \<open>What a run prints\<close>

lemma clone_out: "out (snd (clone_wordpress_repo env w)) = out w @ [Cloning]"
  by (simp add: clone_wordpress_repo_def subprocess_run_def split: prod.splits)

lemma copy_items_out:
  "\<exists>sk. out (snd (copy_items env names w)) = out w @ sk \<and> set sk \<subseteq> range Skipping"
proof (induction names arbitrary: w)
  case Nil
  show ?case by simp
next
  case (Cons name rest)
  let ?dest = "THEMES_TARGET @ [name]"
  let ?item = "source_themes @ [name]"
  show ?case
  proof (cases "path_exists (fs w) ?dest")
    case True
    from Cons [of "print (Skipping name) w"] obtain sk where
      "out (snd (copy_items env rest (print (Skipping name) w))) = out w @ Skipping name # sk"
      and "set sk \<subseteq> range Skipping"
      by auto
    with True show ?thesis
      by (intro exI [of _ "Skipping name # sk"]) (simp add: Let_def)
  next
    case False
    show ?thesis
    proof (cases "if is_dir (fs w) ?item then copytree env ?item ?dest (fs w)
                  else copy2 env ?item ?dest (fs w)")
      case (Inl e)
      with False have "copy_items env (name # rest) w = (Some e, w)"
        by (simp add: Let_def)
      then show ?thesis by simp
    next
      case (Inr es)
      with False have "copy_items env (name # rest) w = copy_items env rest (w\<lparr>fs := es\<rparr>)"
        by (simp add: Let_def)
      with Cons [of "w\<lparr>fs := es\<rparr>"] show ?thesis by simp
    qed
  qed
qed

lemma copy_themes_out:
  "\<exists>sk. set sk \<subseteq> range Skipping
      \<and> (out (snd (copy_themes env w)) = out w \<and> fst (copy_themes env w) \<noteq> None
         \<or> out (snd (copy_themes env w)) = out w @ Copying # sk)"
proof (cases "mkdir_p (fresh env) (fs w) THEMES_TARGET")
  case (Inl e)
  then show ?thesis by (intro exI [of _ "[]"]) (simp add: copy_themes_def)
next
  case (Inr es)
  let ?w1 = "print Copying (w\<lparr>fs := es\<rparr>)"
  show ?thesis
  proof (cases "iterdir (fs ?w1) source_themes")
    case (Inl e)
    with Inr have "copy_themes env w = (Some e, ?w1)"
      by (simp add: copy_themes_def Let_def)
    then show ?thesis by (intro exI [of _ "[]"]) simp
  next
    case (Inr names)
    with \<open>mkdir_p (fresh env) (fs w) THEMES_TARGET = Inr es\<close>
    have "copy_themes env w = copy_items env names ?w1"
      by (simp add: copy_themes_def Let_def)
    with copy_items_out [of env names ?w1] show ?thesis by auto
  qed
qed

lemma clean_out: "out (snd (clean_temp w)) = out w @ [Removing]"
  by (simp add: clean_temp_def Let_def split: sum.splits)

lemma fix_out:
  "out (snd (fix_theme_permissions env w))
     = out w @ (if fst (fix_theme_permissions env w) = None then [Fixing, PermsFixed] else [Fixing])"
  by (simp add: fix_theme_permissions_def then_do_def subprocess_run_def split: prod.splits)

lemma filter_skips: "set sk \<subseteq> range Skipping \<Longrightarrow> filter starts sk = []"
  by (induction sk) auto

lemma try_block_out:
  "\<exists>ls. out (snd (try_block env w)) = out w @ ls
      \<and> (\<forall>l\<in>set ls. failure_prefix l = None)
      \<and> filter starts ls \<in> set [[Cloning], [Cloning, Copying], [Cloning, Copying, Removing],
                                   [Cloning, Copying, Removing, Fixing]]"
proof (cases rule: try_block_cases [of env w])
  case (at_clone e w1)
  with clone_out [of env w] show ?thesis by simp
next
  case (at_copy e w1 w2)
  from clone_out [of env w] at_copy(1) have o1: "out w1 = out w @ [Cloning]" by simp
  from copy_themes_out [of env w1] at_copy(2) obtain sk where sk: "set sk \<subseteq> range Skipping"
    and "out w2 = out w1 \<or> out w2 = out w1 @ Copying # sk"
    by auto
  then consider "out w2 = out w @ [Cloning]" | "out w2 = out w @ Cloning # Copying # sk"
    using o1 by auto
  then show ?thesis
  proof cases
    case 1
    with at_copy(3) show ?thesis by simp
  next
    case 2
    have "\<forall>l\<in>set (Cloning # Copying # sk). failure_prefix l = None"
      using sk by auto
    moreover have "filter starts (Cloning # Copying # sk) = [Cloning, Copying]"
      using filter_skips [OF sk] by simp
    ultimately show ?thesis using 2 at_copy(3)
      by (intro exI [of _ "Cloning # Copying # sk"]) simp
  qed
next
  case (at_clean e w1 w2 w3)
  from clone_out [of env w] at_clean(1) have o1: "out w1 = out w @ [Cloning]" by simp
  from copy_themes_out [of env w1] at_clean(2) obtain sk where sk: "set sk \<subseteq> range Skipping"
    and o2: "out w2 = out w1 @ Copying # sk"
    by auto
  from clean_out [of w2] at_clean(3) have o3: "out w3 = out w2 @ [Removing]" by simp
  have "\<forall>l\<in>set (Cloning # Copying # sk @ [Removing]). failure_prefix l = None"
    using sk by auto
  moreover have "filter starts (Cloning # Copying # sk @ [Removing]) = [Cloning, Copying, Removing]"
    using filter_skips [OF sk] by simp
  ultimately show ?thesis using o1 o2 o3 at_clean(4)
    by (intro exI [of _ "Cloning # Copying # sk @ [Removing]"]) simp
next
  case (at_fix e w1 w2 w3 w4)
  from clone_out [of env w] at_fix(1) have o1: "out w1 = out w @ [Cloning]" by simp
  from copy_themes_out [of env w1] at_fix(2) obtain sk where sk: "set sk \<subseteq> range Skipping"
    and o2: "out w2 = out w1 @ Copying # sk"
    by auto
  from clean_out [of w2] at_fix(3) have o3: "out w3 = out w2 @ [Removing]" by simp
  from fix_out [of env w3] at_fix(4) have o4: "out w4 = out w3 @ [Fixing]" by simp
  have "\<forall>l\<in>set (Cloning # Copying # sk @ [Removing, Fixing]). failure_prefix l = None"
    using sk by auto
  moreover have "filter starts (Cloning # Copying # sk @ [Removing, Fixing])
      = [Cloning, Copying, Removing, Fixing]"
    using filter_skips [OF sk] by simp
  ultimately show ?thesis using o1 o2 o3 o4 at_fix(5)
    by (intro exI [of _ "Cloning # Copying # sk @ [Removing, Fixing]"]) simp
next
  case (finished w1 w2 w3 w4)
  from clone_out [of env w] finished(1) have o1: "out w1 = out w @ [Cloning]" by simp
  from copy_themes_out [of env w1] finished(2) obtain sk where sk: "set sk \<subseteq> range Skipping"
    and o2: "out w2 = out w1 @ Copying # sk"
    by auto
  from clean_out [of w2] finished(3) have o3: "out w3 = out w2 @ [Removing]" by simp
  from fix_out [of env w3] finished(4) have o4: "out w4 = out w3 @ [Fixing, PermsFixed]" by simp
  have "\<forall>l\<in>set (Cloning # Copying # sk @ [Removing, Fixing, PermsFixed, AllDone]).
          failure_prefix l = None"
    using sk by auto
  moreover have "filter starts (Cloning # Copying # sk @ [Removing, Fixing, PermsFixed, AllDone])
      = [Cloning, Copying, Removing, Fixing]"
    using filter_skips [OF sk] by simp
  ultimately show ?thesis using o1 o2 o3 o4 finished(5)
    by (intro exI [of _ "Cloning # Copying # sk @ [Removing, Fixing, PermsFixed, AllDone]"]) simp
qed

lemma report_not_start: "\<not> starts (report e)"
  by (simp add: report_def)

lemma prefix_of_report:
  "failure_prefix (report e) = Some (cross_mark @
     (if e = CalledProcessError then '' Command failed: ''
      else if e = FileNotFoundError then '' Missing required tool (e.g., git): ''
      else '' Unexpected error: ''))"
  by (simp add: report_def)

lemma quiet_try_block: "quiet (try_block env)"
  unfolding quiet_def using try_block_out [of env] by blast

section \<open>Runs on a standard output that refuses the lines\<close>

text \<open>
  On a standard output that accepts the lines, the script with a \<open>print\<close> that can
  raise is the script of the sections above; on one that refuses them, the run ends at its
  first \<open>print\<close> and the exception leaves \<open>main\<close>.
\<close>

lemma say_accepts: "say True l w = (None, print l w)"
  by (simp add: say_def)

lemma say_refuses: "say False l w = (Some UnicodeEncodeError, w)"
  by (simp add: say_def)

lemma clone_io_accepts: "clone_wordpress_repo_io True env = clone_wordpress_repo env"
  by (rule ext) (simp add: clone_wordpress_repo_io_def clone_wordpress_repo_def then_do_def say_def)

lemma copy_items_io_accepts: "copy_items_io True env names w = copy_items env names w"
  by (induction names arbitrary: w) (simp_all add: say_def Let_def split: sum.splits)

lemma copy_themes_io_accepts: "copy_themes_io True env = copy_themes env"
  by (rule ext)
     (simp add: copy_themes_io_def copy_themes_def then_do_def say_def Let_def
                copy_items_io_accepts split: sum.splits)

lemma clean_temp_io_accepts: "clean_temp_io True = clean_temp"
  by (rule ext) (simp add: clean_temp_io_def clean_temp_def then_do_def say_def Let_def)

lemma fix_io_accepts: "fix_theme_permissions_io True env = fix_theme_permissions env"
  by (rule ext)
     (simp add: fix_theme_permissions_io_def fix_theme_permissions_def then_do_def say_def
           split: prod.splits option.splits)

lemma try_block_io_accepts: "try_block_io True env = try_block env"
proof -
  have "say True AllDone = (\<lambda>w. (None, print AllDone w))"
    by (rule ext) (simp add: say_def)
  then show ?thesis
    by (simp add: try_block_io_def try_block_def clone_io_accepts copy_themes_io_accepts
                  clean_temp_io_accepts fix_io_accepts)
qed

lemma main_io_accepts: "main_io True env w = main env w"
  by (simp add: main_io_def main_def try_block_io_accepts say_def split: prod.splits option.splits)

lemma main_io_refuses: "main_io False env w = (Some UnicodeEncodeError, w)"
  by (simp add: main_io_def try_block_io_def clone_wordpress_repo_io_def then_do_def say_def)

text \<open>
  Claim C4, as stated, fails: on a standard output that cannot encode the lines, the first
  \<open>print\<close> of the run raises \<open>UnicodeEncodeError\<close>, the third \<open>except\<close> clause
  catches it, and the \<open>print\<close> of that clause raises it again. The exception leaves
  \<open>main\<close> and the exit status is 1.
\<close>

theorem print_failure_counterexample:
  "fst (try_block_io False no_git_env demo_world) = Some UnicodeEncodeError
 \<and> fst (main_io False no_git_env demo_world) = Some UnicodeEncodeError
 \<and> exit_status (main_io False no_git_env demo_world) = 1"
  by code_simp

text \<open>
  Claim C4, amended. On a standard output that accepts the lines the script prints (it
  can encode them), no exception leaves \<open>main\<close> and the exit status is zero. The steps
  print no failure line themselves; when the \<open>try\<close> block raises, \<open>main\<close> appends exactly one failure line,
  whose fixed text is the command-failure text for \<open>CalledProcessError\<close>, the
  missing-tool text for \<open>FileNotFoundError\<close>, and the unexpected-error text for every
  other exception. The three texts are pairwise different.
\<close>

theorem failures_are_reported:
  assumes "ok"
  shows "fst (main_io ok env w) = None
 \<and> exit_status (main_io ok env w) = 0
 \<and> quiet (try_block_io ok env)
 \<and> (case fst (try_block_io ok env w) of
      None \<Rightarrow> snd (main_io ok env w) = snd (try_block_io ok env w)
    | Some e \<Rightarrow>
        snd (main_io ok env w) = print (report e) (snd (try_block_io ok env w))
      \<and> failure_prefix (report e) = Some (cross_mark @
           (if e = CalledProcessError then '' Command failed: ''
            else if e = FileNotFoundError then '' Missing required tool (e.g., git): ''
            else '' Unexpected error: '')))
 \<and> distinct [cross_mark @ '' Command failed: '',
             cross_mark @ '' Missing required tool (e.g., git): '',
             cross_mark @ '' Unexpected error: '']"
proof -
  from assms have ok: "ok = True" by simp
  obtain r w' where t: "try_block_io ok env w = (r, w')"
    by (cases "try_block_io ok env w")
  have a: "fst (main_io ok env w) = None"
    using t by (cases r) (simp_all add: main_io_def say_def ok)
  then have b: "exit_status (main_io ok env w) = 0"
    by (simp add: exit_status_def)
  have q: "quiet (try_block_io ok env)"
    unfolding ok try_block_io_accepts by (rule quiet_try_block)
  have c: "case fst (try_block_io ok env w) of
      None \<Rightarrow> snd (main_io ok env w) = snd (try_block_io ok env w)
    | Some e \<Rightarrow>
        snd (main_io ok env w) = print (report e) (snd (try_block_io ok env w))
      \<and> failure_prefix (report e) = Some (cross_mark @
           (if e = CalledProcessError then '' Command failed: ''
            else if e = FileNotFoundError then '' Missing required tool (e.g., git): ''
            else '' Unexpected error: ''))"
  proof (cases r)
    case None
    with t show ?thesis by (simp add: main_io_def)
  next
    case (Some e)
    with t have "snd (main_io ok env w) = print (report e) (snd (try_block_io ok env w))"
      by (simp add: main_io_def say_def ok)
    with t Some prefix_of_report [of e] show ?thesis by simp
  qed
  have d: "distinct [cross_mark @ '' Command failed: '',
             cross_mark @ '' Missing required tool (e.g., git): '',
             cross_mark @ '' Unexpected error: '']"
    by simp
  from a b q c d show ?thesis by blast
qed

theorem failures_are_reported_witness:
  "fst (try_block_io True no_sudo_env demo_world) = Some CalledProcessError
 \<and> fst (main_io True no_sudo_env demo_world) = None
 \<and> exit_status (main_io True no_sudo_env demo_world) = 0
 \<and> out (snd (main_io True no_sudo_env demo_world))
     = [Cloning, Copying, Skipping ''twentyseventeen'', Removing, Fixing,
        CommandFailed CalledProcessError]
 \<and> failure_prefix (CommandFailed CalledProcessError) = Some (cross_mark @ '' Command failed: '')"
proof -
  have t: "fst (try_block_io True no_sudo_env demo_world) = Some CalledProcessError"
    by code_simp
  have o: "out (snd (try_block_io True no_sudo_env demo_world))
     = [Cloning, Copying, Skipping ''twentyseventeen'', Removing, Fixing]"
    by code_simp
  have r: "report CalledProcessError = CommandFailed CalledProcessError"
    by (simp add: report_def)
  from failures_are_reported [OF TrueI, of no_sudo_env demo_world]
  have a: "fst (main_io True no_sudo_env demo_world) = None"
    and b: "exit_status (main_io True no_sudo_env demo_world) = 0"
    and c: "case fst (try_block_io True no_sudo_env demo_world) of
      None \<Rightarrow> snd (main_io True no_sudo_env demo_world)
                = snd (try_block_io True no_sudo_env demo_world)
    | Some e \<Rightarrow>
        snd (main_io True no_sudo_env demo_world)
          = print (report e) (snd (try_block_io True no_sudo_env demo_world))
      \<and> failure_prefix (report e) = Some (cross_mark @
           (if e = CalledProcessError then '' Command failed: ''
            else if e = FileNotFoundError then '' Missing required tool (e.g., git): ''
            else '' Unexpected error: ''))"
    by blast+
  from c have m: "snd (main_io True no_sudo_env demo_world)
       = print (CommandFailed CalledProcessError) (snd (try_block_io True no_sudo_env demo_world))"
    and p: "failure_prefix (CommandFailed CalledProcessError)
       = Some (cross_mark @ '' Command failed: '')"
    unfolding t by (simp_all add: r)
  have l: "out (snd (main_io True no_sudo_env demo_world))
     = [Cloning, Copying, Skipping ''twentyseventeen'', Removing, Fixing,
        CommandFailed CalledProcessError]"
    unfolding m by (simp add: o)
  from t a b l p show ?thesis by blast
qed

section \<open>The order of the steps\<close>

text \<open>
  Claim C5. The run is the sequence clone, copy, cleanup, permission fix: the first step
  that raises ends it, and the final world is the world that step left, with one report
  line added; nothing of what the earlier steps did is undone. The start lines of the
  steps appear in the output in this order and at most once each.
\<close>

theorem main_is_one_linear_sequence:
  "main env w =
     (case clone_wordpress_repo env w of
        (Some e, w1) \<Rightarrow> (None, print (report e) w1)
      | (None, w1) \<Rightarrow>
     (case copy_themes env w1 of
        (Some e, w2) \<Rightarrow> (None, print (report e) w2)
      | (None, w2) \<Rightarrow>
     (case clean_temp w2 of
        (Some e, w3) \<Rightarrow> (None, print (report e) w3)
      | (None, w3) \<Rightarrow>
     (case fix_theme_permissions env w3 of
        (Some e, w4) \<Rightarrow> (None, print (report e) w4)
      | (None, w4) \<Rightarrow> (None, print AllDone w4)))))
 \<and> (\<exists>ls. out (snd (main env w)) = out w @ ls
        \<and> filter starts ls \<in> set [[Cloning], [Cloning, Copying], [Cloning, Copying, Removing],
                                     [Cloning, Copying, Removing, Fixing]])"
proof
  show "main env w =
     (case clone_wordpress_repo env w of
        (Some e, w1) \<Rightarrow> (None, print (report e) w1)
      | (None, w1) \<Rightarrow>
     (case copy_themes env w1 of
        (Some e, w2) \<Rightarrow> (None, print (report e) w2)
      | (None, w2) \<Rightarrow>
     (case clean_temp w2 of
        (Some e, w3) \<Rightarrow> (None, print (report e) w3)
      | (None, w3) \<Rightarrow>
     (case fix_theme_permissions env w3 of
        (Some e, w4) \<Rightarrow> (None, print (report e) w4)
      | (None, w4) \<Rightarrow> (None, print AllDone w4)))))"
    by (cases rule: try_block_cases [of env w]) (simp_all add: main_def)
next
  from try_block_out [of env w] obtain ls where
    o: "out (snd (try_block env w)) = out w @ ls"
    and f: "filter starts ls \<in> set [[Cloning], [Cloning, Copying], [Cloning, Copying, Removing],
                                     [Cloning, Copying, Removing, Fixing]]"
    by blast
  obtain r w' where t: "try_block env w = (r, w')"
    by (cases "try_block env w")
  show "\<exists>ls. out (snd (main env w)) = out w @ ls
        \<and> filter starts ls \<in> set [[Cloning], [Cloning, Copying], [Cloning, Copying, Removing],
                                     [Cloning, Copying, Removing, Fixing]]"
  proof (cases r)
    case None
    with t o have "out (snd (main env w)) = out w @ ls"
      by (simp add: main_def)
    with f show ?thesis by blast
  next
    case (Some e)
    with t o have "out (snd (main env w)) = out w @ (ls @ [report e])"
      by (simp add: main_def)
    moreover have "filter starts (ls @ [report e]) = filter starts ls"
      by (simp add: report_not_start)
    ultimately show ?thesis using f by metis
  qed
qed

theorem main_is_one_linear_sequence_witness:
  "clone_wordpress_repo bare_env blocked_world
     = (None, snd (clone_wordpress_repo bare_env blocked_world))
 \<and> copy_themes bare_env (snd (clone_wordpress_repo bare_env blocked_world))
     = (Some FileExistsError, snd (clone_wordpress_repo bare_env blocked_world))
 \<and> main bare_env blocked_world
     = (None, print (UnexpectedError FileExistsError)
                (snd (clone_wordpress_repo bare_env blocked_world)))
 \<and> out (snd (main bare_env blocked_world)) = [Cloning, UnexpectedError FileExistsError]"
proof -
  define w1 where "w1 = snd (clone_wordpress_repo bare_env blocked_world)"
  have f1: "fst (clone_wordpress_repo bare_env blocked_world) = None"
    by code_simp
  have c1: "clone_wordpress_repo bare_env blocked_world = (None, w1)"
    using f1 by (simp add: w1_def prod_eq_iff)
  have f2: "fst (copy_themes bare_env (snd (clone_wordpress_repo bare_env blocked_world)))
     = Some FileExistsError"
    by code_simp
  have m2: "mkdir_p (fresh bare_env) (fs w1) THEMES_TARGET = Inl FileExistsError"
    unfolding w1_def by code_simp
  have c2: "copy_themes bare_env w1 = (Some FileExistsError, w1)"
    by (simp add: copy_themes_def m2)
  have r: "report FileExistsError = UnexpectedError FileExistsError"
    by (simp add: report_def)
  have o1: "out w1 = [Cloning]"
    unfolding w1_def by code_simp
  from main_is_one_linear_sequence [of bare_env blocked_world]
  have m: "main bare_env blocked_world = (None, print (UnexpectedError FileExistsError) w1)"
    by (simp add: c1 c2 r)
  have l: "out (snd (main bare_env blocked_world)) = [Cloning, UnexpectedError FileExistsError]"
    unfolding m by (simp add: o1)
  from c1 c2 m l show ?thesis unfolding w1_def by blast
qed

end
